theory Spec2Isabelle
  imports Main "HOL-Library.Sublist"
begin

section \<open>JavaScript values and helpers used by the scripts\<close>

text \<open>
  The repository is a set of TypeScript scripts; each one is an \<^verbatim>\<open>async function main()\<close>
  that reads \<^verbatim>\<open>process.env\<close>, calls three SDKs in a fixed order, prompts the operator and
  waits on timers. The embedding keeps that shape: a script is a function from the
  environment and the outside world to the list of interactions it performed (its trace)
  and the way \<^verbatim>\<open>main()\<close> settled (resolved, or rejected with the thrown error).

  A string is a \<open>char list\<close> of bytes. The literals of the scripts that hold a glyph
  outside ASCII (a check mark, a cross, a dash) are written here without that glyph.
  A value of type \<^verbatim>\<open>string | undefined\<close> (an entry of \<^verbatim>\<open>process.env\<close>) is a
  \<open>string option\<close>, \<open>None\<close> for \<^verbatim>\<open>undefined\<close>.
\<close>

type_synonym address = string
type_synonym jsstring = "string option"
type_synonym env = "string \<Rightarrow> string option"

text \<open>Truthiness of \<^verbatim>\<open>process.env[v]\<close>: \<^verbatim>\<open>undefined\<close> and the empty string are falsy.\<close>

definition truthy :: "jsstring \<Rightarrow> bool" where
  "truthy v = (case v of None \<Rightarrow> False | Some s \<Rightarrow> s \<noteq> [])"

text \<open>\<^verbatim>\<open>Array.prototype.join\<close> on an array of strings.\<close>

fun join :: "string \<Rightarrow> string list \<Rightarrow> string" where
  "join sep [] = []"
| "join sep [x] = x"
| "join sep (x # y # ys) = x @ sep @ join sep (y # ys)"

text \<open>\<^verbatim>\<open>requiredEnvVars.filter(v => !process.env[v])\<close>\<close>

definition missingEnvVars :: "env \<Rightarrow> string list \<Rightarrow> string list" where
  "missingEnvVars env requiredEnvVars = filter (\<lambda>v. \<not> truthy (env v)) requiredEnvVars"

text \<open>
  White space as \<^verbatim>\<open>String.prototype.trim\<close> and \<^verbatim>\<open>parseInt\<close> skip it, restricted to the
  ASCII code points (TAB, LF, VT, FF, CR, SP).
\<close>

definition isWhiteSpace :: "char \<Rightarrow> bool" where
  "isWhiteSpace c = (c \<in> set [CHR 0x09, CHR 0x0A, CHR 0x0B, CHR 0x0C, CHR 0x0D, CHR '' ''])"

definition trim :: "string \<Rightarrow> string" where
  "trim s = rev (dropWhile isWhiteSpace (rev (dropWhile isWhiteSpace s)))"

text \<open>\<^verbatim>\<open>String.prototype.toLowerCase\<close> on ASCII text (addresses are hexadecimal text).\<close>

definition lowerChar :: "char \<Rightarrow> char" where
  "lowerChar c =
     (let n = (of_char c :: nat) in if 65 \<le> n \<and> n \<le> 90 then char_of (n + 32) else c)"

definition toLowerCase :: "string \<Rightarrow> string" where
  "toLowerCase s = map lowerChar s"

text \<open>
  \<^verbatim>\<open>parseInt(string)\<close> with no radix, after ECMAScript: skip leading white space, read an
  optional sign, switch to radix 16 after a \<^verbatim>\<open>0x\<close> or \<^verbatim>\<open>0X\<close> prefix, read the longest
  run of digits of the radix, and return \<^verbatim>\<open>NaN\<close> when that run is empty. \<open>None\<close> is
  \<^verbatim>\<open>NaN\<close>. The scripts only compare the result with 1, 2 and 3, which the rounding of
  a long digit string to a double does not change, so the result is kept as an integer.
\<close>

definition digitValue :: "char \<Rightarrow> nat option" where
  "digitValue c =
     (let n = (of_char c :: nat) in
      if 48 \<le> n \<and> n \<le> 57 then Some (n - 48)
      else if 97 \<le> n \<and> n \<le> 122 then Some (n - 87)
      else if 65 \<le> n \<and> n \<le> 90 then Some (n - 55)
      else None)"

definition isRadixDigit :: "nat \<Rightarrow> char \<Rightarrow> bool" where
  "isRadixDigit R c = (case digitValue c of None \<Rightarrow> False | Some d \<Rightarrow> d < R)"

definition digitsValue :: "nat \<Rightarrow> string \<Rightarrow> nat" where
  "digitsValue R Z =
     foldl (\<lambda>acc c. acc * R + (case digitValue c of None \<Rightarrow> 0 | Some d \<Rightarrow> d)) 0 Z"

definition parseInt :: "string \<Rightarrow> int option" where
  "parseInt inputString =
     (let S = dropWhile isWhiteSpace inputString;
          sign = (case S of c # _ \<Rightarrow> if c = CHR ''-'' then - 1 else 1 | [] \<Rightarrow> (1 :: int));
          S1 = (case S of c # cs \<Rightarrow> if c = CHR ''+'' \<or> c = CHR ''-'' then cs else S | [] \<Rightarrow> S);
          hex = (2 \<le> length S1 \<and> (take 2 S1 = ''0x'' \<or> take 2 S1 = ''0X''));
          R = (if hex then 16 else 10);
          S2 = (if hex then drop 2 S1 else S1);
          Z = takeWhile (isRadixDigit R) S2
      in if Z = [] then None else Some (sign * int (digitsValue R Z)))"

section \<open>Data of the SDKs\<close>

text \<open>What a script throws or an SDK call rejects with.\<close>

datatype error =
    Error string
  | SafeRecoveryServiceSdkError string
  | OtherError string

text \<open>How the promise of \<^verbatim>\<open>main()\<close> settles.\<close>

datatype outcome = Resolved | Rejected error

text \<open>
  \<^verbatim>\<open>SocialRecoveryModuleGracePeriodSelector\<close> of abstractionkit, with the four members the
  repository's README lists.
\<close>

datatype gracePeriodSelector = After3Minutes | After3Days | After7Days | After14Days

text \<open>
  The README's table of grace periods (Selector, Duration): 3 min, 3 days, 7 days and
  14 days, here in milliseconds.
\<close>

fun gracePeriodMs :: "gracePeriodSelector \<Rightarrow> nat" where
  "gracePeriodMs After3Minutes = 3 * 60 * 1000"
| "gracePeriodMs After3Days = 3 * 24 * 60 * 60 * 1000"
| "gracePeriodMs After7Days = 7 * 24 * 60 * 60 * 1000"
| "gracePeriodMs After14Days = 14 * 24 * 60 * 60 * 1000"

text \<open>
  The objects the scripts construct. A constructor only stores its arguments, so an
  object is the tuple of them.
\<close>

datatype socialRecoveryModule = SocialRecoveryModule gracePeriodSelector

datatype recoveryByGuardian = RecoveryByGuardian jsstring int gracePeriodSelector

datatype recoveryByCustodialGuardian = RecoveryByCustodialGuardian jsstring int

datatype alerts = Alerts jsstring int

text \<open>
  The meta-transactions built by \<^verbatim>\<open>srm.create...MetaTransaction\<close>: pure builders of
  abstractionkit, kept symbolic (which module built which call, with which arguments).
\<close>

datatype metaTransaction =
    EnableModuleMetaTransaction socialRecoveryModule address
  | AddGuardianWithThresholdMetaTransaction socialRecoveryModule address nat
  | CancelRecoveryMetaTransaction socialRecoveryModule

text \<open>The messages built by the pure statement builders of the SDKs, kept symbolic.\<close>

datatype message =
    RegistrationToEmailRecoverySiwe address jsstring
  | RegistrationToSmsRecoverySiwe address string
  | RegistrationsSiwe address
  | SubscriptionsSiwe address
  | EmailSubscriptionSiwe jsstring address jsstring
  | SubscriptionSiwe jsstring address string jsstring

datatype typedData =
    RecoveryRequestEip712Data string
  | SafeMessageEip712Data address int message

datatype signature =
    Signature string
  | BuildSignaturesFromSingerSignaturePairs address string

record walletConfig =
  cfg_chainId :: jsstring
  cfg_provider :: jsstring
  cfg_bundlerUrl :: jsstring
  cfg_entryPointAddress :: jsstring
  cfg_safeModulesVersion :: string
  cfg_isSponsored :: bool
  cfg_paymasterUrl :: jsstring
  cfg_sponsorshipPolicyId :: jsstring

text \<open>The result of \<^verbatim>\<open>SendUseroperationResponse.included()\<close>, as far as the scripts read it.\<close>

record userOperationReceipt =
  receipt_success :: bool
  receipt_transactionHash :: string

text \<open>The result of \<^verbatim>\<open>srm.getRecoveryRequest\<close>; \<^verbatim>\<open>executeAfter\<close> is a bigint.\<close>

record onChainRecoveryRequest =
  executeAfter :: int
  newOwners :: "address list"
  newThreshold :: int

record auth =
  auth_channel :: string
  auth_target :: string
  auth_challengeId :: string

record signatureRequest =
  requestId :: string
  auths :: "auth list"

record verificationResult =
  vr_success :: bool
  custodianGuardianAddress :: jsstring
  custodianGuardianSignature :: jsstring

record recoveryRequest =
  rr_id :: string
  rr_status :: string
  rr_emoji :: string
  rr_executeTransactionHash :: string

record channelTarget =
  ct_channel :: string
  ct_target :: string

section \<open>Traces\<close>

text \<open>
  One event per interaction of a script with the outside: a call of an SDK that goes to
  the network or signs (each \<^verbatim>\<open>await\<close>ed call), a prompt, a timer, the close of the
  readline interface, the disposal of the wallet objects, and the console lines that
  report a failure, an early return or the result of a check. The banner, the section
  headers and the progress lines of the console are not recorded. An event holds the arguments of the call and
  what the call gave back: \<open>Inl\<close> the error it rejected with, \<open>Inr\<close> its value.
\<close>

datatype (plugins only: code) event =
    AskQuestion string string
  | RlClose
  | SetTimeout nat
  | ConsoleLog string
  | ConsoleError error
  | GenerateMnemonic string
  | GeneratePrivateKey string
  | GetAccount jsstring walletConfig nat "error + unit"
  | GetAddress "error + address"
  | SendTransaction "metaTransaction list" "error + string"
  | WaitForUserOperation string jsstring jsstring "error + userOperationReceipt"
  | DisposeAccount
  | DisposeWallet
  | GetRecoveryRequest socialRecoveryModule jsstring jsstring "error + onChainRecoveryRequest"
  | IsModuleEnabled address jsstring address "error + bool"
  | GuardiansAndThreshold socialRecoveryModule jsstring address address address
      "error + (bool \<times> bool \<times> int)"
  | GetOwners jsstring jsstring "error + address list"
  | GetRecoveryRequestEip712Data socialRecoveryModule jsstring int jsstring "address list" int
      "error + string"
  | SignTypedData address typedData "error + string"
  | SignMessage address message "error + string"
  | CreateRecoveryRequest recoveryByGuardian jsstring "address list" int address string
      "error + recoveryRequest"
  | SubmitGuardianSignatureForRecoveryRequest recoveryByGuardian string address string
      "error + unit"
  | ExecuteRecoveryRequest recoveryByGuardian string "error + unit"
  | GetExecutedRecoveryRequestForLatestNonce recoveryByGuardian jsstring jsstring
      "error + recoveryRequest option"
  | FinalizeRecoveryRequest recoveryByGuardian string "error + bool"
  | RequestCustodialGuardianSignatureChallenge recoveryByCustodialGuardian jsstring
      "address list" int "error + signatureRequest"
  | SubmitCustodialGuardianSignatureChallenge recoveryByCustodialGuardian string string string
      "error + verificationResult"
  | CreateAndExecuteRecoveryRequest recoveryByCustodialGuardian jsstring "address list" int
      string string "error + recoveryRequest"
  | CreateRegistrationToEmailRecovery recoveryByCustodialGuardian address jsstring message
      signature "error + string"
  | CreateRegistrationToSmsRecovery recoveryByCustodialGuardian address string message
      signature "error + string"
  | SubmitRegistrationChallenge recoveryByCustodialGuardian string string "error + address"
  | GetRegistrations recoveryByCustodialGuardian address message signature
      "error + channelTarget list"
  | GetActiveSubscriptions alerts jsstring address message string "error + channelTarget list"
  | CreateEmailSubscription alerts jsstring address jsstring message string "error + string"
  | CreateSubscription alerts jsstring address string jsstring message string "error + string"
  | ActivateSubscription alerts string string "error + bool"

type_synonym run = "event list \<times> outcome"

section \<open>The outside world\<close>

text \<open>
  What the network, the operator and the random generators answer. Every answer may
  depend on everything the script did before (the trace so far, first argument), so the
  same call can be answered differently the second time. A call that can reject
  returns \<open>error + value\<close>.

  The conversions \<^verbatim>\<open>BigInt(text)\<close> and \<^verbatim>\<open>BigInt(Number(text))\<close> and the key derivations
  of viem are pure but can throw; they are parameters as well.
\<close>

record runtime =
  askAnswer :: "event list \<Rightarrow> string \<Rightarrow> string"
  generateMnemonic :: "event list \<Rightarrow> string"
  generatePrivateKey :: "event list \<Rightarrow> string"
  privateKeyToAccount :: "jsstring \<Rightarrow> error + address"
  mnemonicToAccount :: "jsstring \<Rightarrow> error + address"
  bigIntOfString :: "jsstring \<Rightarrow> error + int"
  bigIntOfNumber :: "jsstring \<Rightarrow> error + int"
  signTypedData :: "event list \<Rightarrow> address \<Rightarrow> typedData \<Rightarrow> error + string"
  signMessage :: "event list \<Rightarrow> address \<Rightarrow> message \<Rightarrow> error + string"

record wdk =
  getAccount :: "event list \<Rightarrow> jsstring \<Rightarrow> walletConfig \<Rightarrow> nat \<Rightarrow> error + unit"
  getAddress :: "event list \<Rightarrow> error + address"
  sendTransaction :: "event list \<Rightarrow> metaTransaction list \<Rightarrow> error + string"
  included :: "event list \<Rightarrow> string \<Rightarrow> jsstring \<Rightarrow> jsstring \<Rightarrow> error + userOperationReceipt"

record abstractionkit =
  moduleAddress :: "socialRecoveryModule \<Rightarrow> address"
  getRecoveryRequest ::
    "event list \<Rightarrow> socialRecoveryModule \<Rightarrow> jsstring \<Rightarrow> jsstring \<Rightarrow> error + onChainRecoveryRequest"
  isModuleEnabled :: "event list \<Rightarrow> address \<Rightarrow> jsstring \<Rightarrow> address \<Rightarrow> error + bool"
  guardiansAndThreshold ::
    "event list \<Rightarrow> socialRecoveryModule \<Rightarrow> jsstring \<Rightarrow> address \<Rightarrow> address \<Rightarrow> address
      \<Rightarrow> error + (bool \<times> bool \<times> int)"
  getOwners :: "event list \<Rightarrow> jsstring \<Rightarrow> jsstring \<Rightarrow> error + address list"
  getRecoveryRequestEip712Data ::
    "event list \<Rightarrow> socialRecoveryModule \<Rightarrow> jsstring \<Rightarrow> int \<Rightarrow> jsstring \<Rightarrow> address list \<Rightarrow> int
      \<Rightarrow> error + string"

record recoveryService =
  createRecoveryRequest ::
    "event list \<Rightarrow> recoveryByGuardian \<Rightarrow> jsstring \<Rightarrow> address list \<Rightarrow> int \<Rightarrow> address \<Rightarrow> string
      \<Rightarrow> error + recoveryRequest"
  submitGuardianSignatureForRecoveryRequest ::
    "event list \<Rightarrow> recoveryByGuardian \<Rightarrow> string \<Rightarrow> address \<Rightarrow> string \<Rightarrow> error + unit"
  executeRecoveryRequest :: "event list \<Rightarrow> recoveryByGuardian \<Rightarrow> string \<Rightarrow> error + unit"
  getExecutedRecoveryRequestForLatestNonce ::
    "event list \<Rightarrow> recoveryByGuardian \<Rightarrow> jsstring \<Rightarrow> jsstring \<Rightarrow> error + recoveryRequest option"
  finalizeRecoveryRequest :: "event list \<Rightarrow> recoveryByGuardian \<Rightarrow> string \<Rightarrow> error + bool"

record custodialService =
  requestCustodialGuardianSignatureChallenge ::
    "event list \<Rightarrow> recoveryByCustodialGuardian \<Rightarrow> jsstring \<Rightarrow> address list \<Rightarrow> int
      \<Rightarrow> error + signatureRequest"
  submitCustodialGuardianSignatureChallenge ::
    "event list \<Rightarrow> recoveryByCustodialGuardian \<Rightarrow> string \<Rightarrow> string \<Rightarrow> string
      \<Rightarrow> error + verificationResult"
  createAndExecuteRecoveryRequest ::
    "event list \<Rightarrow> recoveryByCustodialGuardian \<Rightarrow> jsstring \<Rightarrow> address list \<Rightarrow> int \<Rightarrow> string
      \<Rightarrow> string \<Rightarrow> error + recoveryRequest"
  createRegistrationToEmailRecovery ::
    "event list \<Rightarrow> recoveryByCustodialGuardian \<Rightarrow> address \<Rightarrow> jsstring \<Rightarrow> message \<Rightarrow> signature
      \<Rightarrow> error + string"
  createRegistrationToSmsRecovery ::
    "event list \<Rightarrow> recoveryByCustodialGuardian \<Rightarrow> address \<Rightarrow> string \<Rightarrow> message \<Rightarrow> signature
      \<Rightarrow> error + string"
  submitRegistrationChallenge ::
    "event list \<Rightarrow> recoveryByCustodialGuardian \<Rightarrow> string \<Rightarrow> string \<Rightarrow> error + address"
  getRegistrations ::
    "event list \<Rightarrow> recoveryByCustodialGuardian \<Rightarrow> address \<Rightarrow> message \<Rightarrow> signature
      \<Rightarrow> error + channelTarget list"

record alertsService =
  getActiveSubscriptions ::
    "event list \<Rightarrow> alerts \<Rightarrow> jsstring \<Rightarrow> address \<Rightarrow> message \<Rightarrow> string \<Rightarrow> error + channelTarget list"
  createEmailSubscription ::
    "event list \<Rightarrow> alerts \<Rightarrow> jsstring \<Rightarrow> address \<Rightarrow> jsstring \<Rightarrow> message \<Rightarrow> string \<Rightarrow> error + string"
  createSubscription ::
    "event list \<Rightarrow> alerts \<Rightarrow> jsstring \<Rightarrow> address \<Rightarrow> string \<Rightarrow> jsstring \<Rightarrow> message \<Rightarrow> string
      \<Rightarrow> error + string"
  activateSubscription :: "event list \<Rightarrow> alerts \<Rightarrow> string \<Rightarrow> string \<Rightarrow> error + bool"

record world =
  rt :: runtime
  wallet :: wdk
  kit :: abstractionkit
  guardianSvc :: recoveryService
  custodialSvc :: custodialService
  alertsSvc :: alertsService

section \<open>Sequencing\<close>

text \<open>
  \<^verbatim>\<open>const v = await call(...)\<close>: the call is recorded with its result; a rejection
  rejects \<^verbatim>\<open>main()\<close> on the spot (no script catches at this level), a value is passed
  to the rest of the function.
\<close>

definition await :: "(error + 'a) \<Rightarrow> ((error + 'a) \<Rightarrow> event) \<Rightarrow> event list
    \<Rightarrow> ('a \<Rightarrow> event list \<Rightarrow> run) \<Rightarrow> run" where
  "await r ev t k = (case r of Inl e \<Rightarrow> (t @ [ev r], Rejected e) | Inr v \<Rightarrow> k v (t @ [ev r]))"

text \<open>A pure call that can throw: nothing is recorded.\<close>

definition attempt :: "(error + 'a) \<Rightarrow> event list \<Rightarrow> ('a \<Rightarrow> run) \<Rightarrow> run" where
  "attempt r t k = (case r of Inl e \<Rightarrow> (t, Rejected e) | Inr v \<Rightarrow> k v)"

text \<open>\<^verbatim>\<open>await askQuestion(question)\<close>\<close>

definition askQuestion :: "world \<Rightarrow> string \<Rightarrow> event list \<Rightarrow> (string \<Rightarrow> event list \<Rightarrow> run) \<Rightarrow> run" where
  "askQuestion w question t k =
     (let answer = askAnswer (rt w) t question in k answer (t @ [AskQuestion question answer]))"

text \<open>
  \<^verbatim>\<open>waitForUserOperation(hash, bundlerUrl, entryPointAddress)\<close>: builds a
  \<^verbatim>\<open>SendUseroperationResponse\<close> and returns its \<^verbatim>\<open>included()\<close>.
\<close>

definition waitForUserOperation :: "world \<Rightarrow> string \<Rightarrow> jsstring \<Rightarrow> jsstring \<Rightarrow> event list
    \<Rightarrow> (userOperationReceipt \<Rightarrow> event list \<Rightarrow> run) \<Rightarrow> run" where
  "waitForUserOperation w userOperationHash bundlerUrl entryPointAddress t k =
     await (included (wallet w) t userOperationHash bundlerUrl entryPointAddress)
       (WaitForUserOperation userOperationHash bundlerUrl entryPointAddress) t k"

text \<open>
  \<^verbatim>\<open>new WalletManagerEvmErc4337(seedPhrase, {...})\<close> with the options every recovery
  script passes, then \<^verbatim>\<open>wallet.getAccount(0)\<close> and \<^verbatim>\<open>account.getAddress()\<close>.
  \<^verbatim>\<open>chainId\<close> is \<^verbatim>\<open>Number(process.env.CHAIN_ID)\<close>; the conversion is left to the SDK
  side, the configuration carries the text.
\<close>

definition sponsoredConfig :: "env \<Rightarrow> walletConfig" where
  "sponsoredConfig env =
     \<lparr> cfg_chainId = env ''CHAIN_ID'',
       cfg_provider = env ''NODE_URL'',
       cfg_bundlerUrl = env ''BUNDLER_URL'',
       cfg_entryPointAddress = env ''ENTRY_POINT_ADDRESS'',
       cfg_safeModulesVersion = ''0.3.0'',
       cfg_isSponsored = True,
       cfg_paymasterUrl = env ''PAYMASTER_URL'',
       cfg_sponsorshipPolicyId = env ''SPONSORSHIP_POLICY_ID'' \<rparr>"

definition initializeSafeAccount :: "world \<Rightarrow> env \<Rightarrow> jsstring \<Rightarrow> event list
    \<Rightarrow> (address \<Rightarrow> event list \<Rightarrow> run) \<Rightarrow> run" where
  "initializeSafeAccount w env seedPhrase t k =
     await (getAccount (wallet w) t seedPhrase (sponsoredConfig env) 0)
       (GetAccount seedPhrase (sponsoredConfig env) 0) t
       (\<lambda>_ t. await (getAddress (wallet w) t) GetAddress t k)"

section \<open>recovery/shared/cancel-recovery\<close>

definition cancel_requiredEnvVars :: "string list" where
  "cancel_requiredEnvVars =
     [''SEED_PHRASE'', ''SAFE_ACCOUNT_ADDRESS'', ''CHAIN_ID'', ''NODE_URL'', ''BUNDLER_URL'',
      ''PAYMASTER_URL'', ''ENTRY_POINT_ADDRESS'']"

text \<open>Step 6: read the request again and report.\<close>

definition cancel_verifyCancellation :: "world \<Rightarrow> env \<Rightarrow> socialRecoveryModule \<Rightarrow> event list \<Rightarrow> run" where
  "cancel_verifyCancellation w env srm t =
     await (getRecoveryRequest (kit w) t srm (env ''NODE_URL'') (env ''SAFE_ACCOUNT_ADDRESS''))
       (GetRecoveryRequest srm (env ''NODE_URL'') (env ''SAFE_ACCOUNT_ADDRESS'')) t
       (\<lambda>afterCancel t.
          (t @ [ConsoleLog (if executeAfter afterCancel = 0
                            then ''Recovery successfully cancelled''
                            else ''Unexpected: recovery request still present after cancellation''),
                DisposeAccount, DisposeWallet],
           Resolved))"

text \<open>Steps 4 and 5: build the cancellation, submit it, wait for its inclusion.\<close>

definition cancel_cancelRecovery :: "world \<Rightarrow> env \<Rightarrow> socialRecoveryModule \<Rightarrow> event list \<Rightarrow> run" where
  "cancel_cancelRecovery w env srm t =
     (let cancelTx = CancelRecoveryMetaTransaction srm in
      await (sendTransaction (wallet w) t [cancelTx]) (SendTransaction [cancelTx]) t
        (\<lambda>result_hash t.
           waitForUserOperation w result_hash (env ''BUNDLER_URL'') (env ''ENTRY_POINT_ADDRESS'') t
             (\<lambda>receipt t.
                if \<not> receipt_success receipt
                then (t, Rejected (Error ''Cancellation UserOperation failed on-chain''))
                else cancel_verifyCancellation w env srm t)))"

text \<open>
  Step 3, the comparison: the address the seed phrase derives against
  \<^verbatim>\<open>SAFE_ACCOUNT_ADDRESS\<close>, both in lower case. (\<^verbatim>\<open>toLowerCase\<close> of \<^verbatim>\<open>undefined\<close>
  would be a TypeError; the configuration check excludes it.)
\<close>

definition cancel_confirmOwner :: "world \<Rightarrow> env \<Rightarrow> socialRecoveryModule \<Rightarrow> address \<Rightarrow> event list
    \<Rightarrow> run" where
  "cancel_confirmOwner w env srm accountAddress t =
     (case env ''SAFE_ACCOUNT_ADDRESS'' of
        None \<Rightarrow> (t, Rejected (OtherError ''TypeError''))
      | Some safeAccountAddress \<Rightarrow>
          if toLowerCase accountAddress \<noteq> toLowerCase safeAccountAddress
          then (t, Rejected (Error (''Seed phrase derives '' @ accountAddress @ '', not ''
                     @ safeAccountAddress @ ''. '' @ ''Only the original Safe owner can cancel.'')))
          else cancel_cancelRecovery w env srm t)"

text \<open>Step 3: derive the account from the seed phrase, then compare.\<close>

definition cancel_initializeSafeAccount :: "world \<Rightarrow> env \<Rightarrow> socialRecoveryModule \<Rightarrow> event list \<Rightarrow> run" where
  "cancel_initializeSafeAccount w env srm t =
     initializeSafeAccount w env (env ''SEED_PHRASE'') t (cancel_confirmOwner w env srm)"

text \<open>Steps 1 and 2: the configuration, then the pending request read from the chain.\<close>

definition cancel_main :: "env \<Rightarrow> world \<Rightarrow> run" where
  "cancel_main env w =
     (let missing = missingEnvVars env cancel_requiredEnvVars in
      if length missing > 0
      then ([], Rejected (Error (''Missing required env vars: '' @ join '', '' missing)))
      else
        let srm = SocialRecoveryModule After3Minutes in
        await (getRecoveryRequest (kit w) [] srm (env ''NODE_URL'') (env ''SAFE_ACCOUNT_ADDRESS''))
          (GetRecoveryRequest srm (env ''NODE_URL'') (env ''SAFE_ACCOUNT_ADDRESS'')) []
          (\<lambda>recoveryRequest t.
             if executeAfter recoveryRequest = 0
             then (t @ [ConsoleLog ''No pending recovery request found. Nothing to cancel.''], Resolved)
             else cancel_initializeSafeAccount w env srm t))"


section \<open>Fragments the scripts share\<close>

text \<open>A \<^verbatim>\<open>string | undefined\<close> inside a template literal.\<close>

definition toString :: "jsstring \<Rightarrow> string" where
  "toString v = (case v of None \<Rightarrow> ''undefined'' | Some s \<Rightarrow> s)"

text \<open>Comparisons of a number that may be \<^verbatim>\<open>NaN\<close> with a literal: false on \<^verbatim>\<open>NaN\<close>.\<close>

definition numLess :: "int option \<Rightarrow> int \<Rightarrow> bool" where
  "numLess a b = (case a of None \<Rightarrow> False | Some x \<Rightarrow> x < b)"

definition numGreater :: "int option \<Rightarrow> int \<Rightarrow> bool" where
  "numGreater a b = (case a of None \<Rightarrow> False | Some x \<Rightarrow> x > b)"

text \<open>\<^verbatim>\<open>process.env.SEED_PHRASE || generateMnemonic(english)\<close>\<close>

definition seedPhraseOrGenerate :: "world \<Rightarrow> env \<Rightarrow> event list
    \<Rightarrow> (string \<Rightarrow> event list \<Rightarrow> run) \<Rightarrow> run" where
  "seedPhraseOrGenerate w env t k =
     (if truthy (env ''SEED_PHRASE'') then k (toString (env ''SEED_PHRASE'')) t
      else let seedPhrase = generateMnemonic (rt w) t
           in k seedPhrase (t @ [GenerateMnemonic seedPhrase]))"

text \<open>\<^verbatim>\<open>if (!key) { key = generatePrivateKey() }\<close>\<close>

definition privateKeyOrGenerate :: "world \<Rightarrow> jsstring \<Rightarrow> event list
    \<Rightarrow> (string \<Rightarrow> event list \<Rightarrow> run) \<Rightarrow> run" where
  "privateKeyOrGenerate w v t k =
     (if truthy v then k (toString v) t
      else let privateKey = generatePrivateKey (rt w) t
           in k privateKey (t @ [GeneratePrivateKey privateKey]))"

text \<open>
  \<^verbatim>\<open>process.env.SAFE_ACCOUNT_ADDRESS ? process.env.SAFE_ACCOUNT_ADDRESS
     : (await askQuestion(question)).trim()\<close>
\<close>

definition safeAccountAddressOrAsk :: "world \<Rightarrow> env \<Rightarrow> string \<Rightarrow> event list
    \<Rightarrow> (jsstring \<Rightarrow> event list \<Rightarrow> run) \<Rightarrow> run" where
  "safeAccountAddressOrAsk w env question t k =
     (if truthy (env ''SAFE_ACCOUNT_ADDRESS'') then k (env ''SAFE_ACCOUNT_ADDRESS'') t
      else askQuestion w question t (\<lambda>answer t. k (Some (trim answer)) t))"

text \<open>
  The new owner of both recovery flows: \<^verbatim>\<open>NEW_OWNER_ADDRESS\<close> when set, else the address
  of a freshly generated key.
\<close>

definition newOwnerOrGenerate :: "world \<Rightarrow> env \<Rightarrow> event list
    \<Rightarrow> (address \<Rightarrow> event list \<Rightarrow> run) \<Rightarrow> run" where
  "newOwnerOrGenerate w env t k =
     (if truthy (env ''NEW_OWNER_ADDRESS'') then k (toString (env ''NEW_OWNER_ADDRESS'')) t
      else let newOwnerPrivateKey = generatePrivateKey (rt w) t;
               t1 = t @ [GeneratePrivateKey newOwnerPrivateKey]
           in attempt (privateKeyToAccount (rt w) (Some newOwnerPrivateKey)) t1
                (\<lambda>newOwnerAddress. k newOwnerAddress t1))"

text \<open>
  \<^verbatim>\<open>let x = fromEnv; if (enabled && !x) { x = await askQuestion(question) }\<close>
\<close>

definition valueOrAsk :: "world \<Rightarrow> bool \<Rightarrow> jsstring \<Rightarrow> string \<Rightarrow> event list
    \<Rightarrow> (jsstring \<Rightarrow> event list \<Rightarrow> run) \<Rightarrow> run" where
  "valueOrAsk w enabled fromEnv question t k =
     (if enabled \<and> \<not> truthy fromEnv
      then askQuestion w question t (\<lambda>answer t. k (Some answer) t)
      else k fromEnv t)"

text \<open>
  Steps 6 to 8 of both recovery-flow scripts, which are the same text in both: the timed
  wait, \<^verbatim>\<open>finalizeRecoveryRequest\<close>, a second wait and the read of the owners.
\<close>

definition awaitGracePeriodAndFinalize :: "world \<Rightarrow> recoveryByGuardian \<Rightarrow> string \<Rightarrow> jsstring
    \<Rightarrow> jsstring \<Rightarrow> event list \<Rightarrow> run" where
  "awaitGracePeriodAndFinalize w recoveryService recoveryRequestId safeAccountAddress nodeUrl t =
     (let t1 = t @ [SetTimeout (4 * 60 * 1000)] in
      await (finalizeRecoveryRequest (guardianSvc w) t1 recoveryService recoveryRequestId)
        (FinalizeRecoveryRequest recoveryService recoveryRequestId) t1
        (\<lambda>finalizationResult t.
           if \<not> finalizationResult
           then (t @ [ConsoleLog ''Recovery finalization failed'', RlClose], Resolved)
           else
             let t2 = t @ [ConsoleLog ''Recovery finalized successfully'', SetTimeout (30 * 1000)] in
             await (getOwners (kit w) t2 safeAccountAddress nodeUrl)
               (GetOwners safeAccountAddress nodeUrl) t2
               (\<lambda>newOwners t. (t @ [RlClose], Resolved))))"

section \<open>recovery/personal-guardian/01-add-personal-guardian\<close>

definition addGuardian_requiredEnvVars :: "string list" where
  "addGuardian_requiredEnvVars =
     [''CHAIN_ID'', ''NODE_URL'', ''BUNDLER_URL'', ''PAYMASTER_URL'', ''ENTRY_POINT_ADDRESS'']"

text \<open>Step 7: the three reads under \<^verbatim>\<open>Promise.all\<close>, one event.\<close>

definition addGuardian_verifySetup :: "world \<Rightarrow> env \<Rightarrow> socialRecoveryModule \<Rightarrow> address \<Rightarrow> address
    \<Rightarrow> address \<Rightarrow> event list \<Rightarrow> run" where
  "addGuardian_verifySetup w env srm accountAddress guardian1Address guardian2Address t =
     await (guardiansAndThreshold (kit w) t srm (env ''NODE_URL'') accountAddress guardian1Address
              guardian2Address)
       (GuardiansAndThreshold srm (env ''NODE_URL'') accountAddress guardian1Address guardian2Address) t
       (\<lambda>_ t. (t @ [DisposeAccount, DisposeWallet], Resolved))"

text \<open>Steps 5 and 6: one batched UserOperation, then its inclusion.\<close>

definition addGuardian_submit :: "world \<Rightarrow> env \<Rightarrow> socialRecoveryModule \<Rightarrow> address \<Rightarrow> address
    \<Rightarrow> address \<Rightarrow> metaTransaction list \<Rightarrow> event list \<Rightarrow> run" where
  "addGuardian_submit w env srm accountAddress guardian1Address guardian2Address transactions t =
     await (sendTransaction (wallet w) t transactions) (SendTransaction transactions) t
       (\<lambda>result_hash t.
          waitForUserOperation w result_hash (env ''BUNDLER_URL'') (env ''ENTRY_POINT_ADDRESS'') t
            (\<lambda>receipt t.
               if \<not> receipt_success receipt
               then (t, Rejected (Error ''UserOperation failed on-chain''))
               else addGuardian_verifySetup w env srm accountAddress guardian1Address
                      guardian2Address t))"

text \<open>Step 4: the module check and the list of transactions.\<close>

definition addGuardian_buildTransactions :: "world \<Rightarrow> env \<Rightarrow> address \<Rightarrow> address \<Rightarrow> address
    \<Rightarrow> event list \<Rightarrow> run" where
  "addGuardian_buildTransactions w env accountAddress guardian1Address guardian2Address t =
     (let srm = SocialRecoveryModule After3Minutes in
      await (isModuleEnabled (kit w) t accountAddress (env ''NODE_URL'') (moduleAddress (kit w) srm))
        (IsModuleEnabled accountAddress (env ''NODE_URL'') (moduleAddress (kit w) srm)) t
        (\<lambda>moduleAlreadyEnabled t.
           let transactions0 =
                 (if moduleAlreadyEnabled then []
                  else [EnableModuleMetaTransaction srm accountAddress]);
               t1 = t @ (if moduleAlreadyEnabled
                         then [ConsoleLog ''Social Recovery Module already enabled - skipping enablement'']
                         else []);
               transactions1 =
                 transactions0 @ [AddGuardianWithThresholdMetaTransaction srm guardian1Address 1];
               transactions =
                 transactions1 @ [AddGuardianWithThresholdMetaTransaction srm guardian2Address 2]
           in addGuardian_submit w env srm accountAddress guardian1Address guardian2Address
                transactions t1))"

text \<open>Steps 1 to 3: the configuration, the account, the guardian keys.\<close>

definition addGuardian_main :: "env \<Rightarrow> world \<Rightarrow> run" where
  "addGuardian_main env w =
     (let missing = missingEnvVars env addGuardian_requiredEnvVars in
      if length missing > 0
      then ([], Rejected (Error (''Missing required env vars: '' @ join '', '' missing)))
      else
        seedPhraseOrGenerate w env []
          (\<lambda>seedPhrase t.
             initializeSafeAccount w env (Some seedPhrase) t
               (\<lambda>accountAddress t.
                  privateKeyOrGenerate w (env ''GUARDIAN_1_PRIVATE_KEY'') t
                    (\<lambda>guardian1PrivateKey t.
                       privateKeyOrGenerate w (env ''GUARDIAN_2_PRIVATE_KEY'') t
                         (\<lambda>guardian2PrivateKey t.
                            attempt (privateKeyToAccount (rt w) (Some guardian1PrivateKey)) t
                              (\<lambda>guardian1Address.
                                 attempt (privateKeyToAccount (rt w) (Some guardian2PrivateKey)) t
                                   (\<lambda>guardian2Address.
                                      addGuardian_buildTransactions w env accountAddress
                                        guardian1Address guardian2Address t)))))))"

section \<open>recovery/personal-guardian, the recovery flow (second half of the same file)\<close>

definition guardianFlow_requiredEnvVars :: "string list" where
  "guardianFlow_requiredEnvVars =
     [''CHAIN_ID'', ''NODE_URL'', ''RECOVERY_SERVICE_URL'', ''GUARDIAN_1_PRIVATE_KEY'',
      ''GUARDIAN_2_PRIVATE_KEY'']"

text \<open>Step 5: execute, wait for the bundler, read the executed request, then steps 6 to 8.\<close>

definition guardianFlow_execute :: "world \<Rightarrow> env \<Rightarrow> recoveryByGuardian \<Rightarrow> jsstring \<Rightarrow> string
    \<Rightarrow> event list \<Rightarrow> run" where
  "guardianFlow_execute w env recoveryService safeAccountAddress recoveryRequestId t =
     await (executeRecoveryRequest (guardianSvc w) t recoveryService recoveryRequestId)
       (ExecuteRecoveryRequest recoveryService recoveryRequestId) t
       (\<lambda>_ t.
          let t1 = t @ [SetTimeout (30 * 1000)] in
          await (getExecutedRecoveryRequestForLatestNonce (guardianSvc w) t1 recoveryService
                   (env ''NODE_URL'') safeAccountAddress)
            (GetExecutedRecoveryRequestForLatestNonce recoveryService (env ''NODE_URL'')
               safeAccountAddress) t1
            (\<lambda>executedRequest t.
               let processing = [ConsoleLog ''Recovery execution may still be processing...''];
                   t2 = t @ (case executedRequest of
                               None \<Rightarrow> processing
                             | Some r \<Rightarrow>
                                 if rr_status r = ''EXECUTED''
                                 then [ConsoleLog (''Recovery executed. Status: '' @ rr_status r),
                                       ConsoleLog (''Transaction hash: '' @ rr_executeTransactionHash r)]
                                 else processing)
               in awaitGracePeriodAndFinalize w recoveryService recoveryRequestId safeAccountAddress
                    (env ''NODE_URL'') t2))"

text \<open>Steps 2 to 4: the services, the typed data, the two guardian signatures.\<close>

definition guardianFlow_collectSignatures :: "world \<Rightarrow> env \<Rightarrow> int \<Rightarrow> address \<Rightarrow> address \<Rightarrow> jsstring
    \<Rightarrow> address \<Rightarrow> event list \<Rightarrow> run" where
  "guardianFlow_collectSignatures w env chainId guardian1 guardian2 safeAccountAddress
       newOwnerAddress t =
     (let srm = SocialRecoveryModule After3Minutes;
          recoveryService = RecoveryByGuardian (env ''RECOVERY_SERVICE_URL'') chainId After3Minutes
      in
      await (getRecoveryRequestEip712Data (kit w) t srm (env ''NODE_URL'') chainId safeAccountAddress
               [newOwnerAddress] 1)
        (GetRecoveryRequestEip712Data srm (env ''NODE_URL'') chainId safeAccountAddress
           [newOwnerAddress] 1) t
        (\<lambda>eip712 t.
           await (signTypedData (rt w) t guardian1 (RecoveryRequestEip712Data eip712))
             (SignTypedData guardian1 (RecoveryRequestEip712Data eip712)) t
             (\<lambda>guardian1Signature t.
                await (createRecoveryRequest (guardianSvc w) t recoveryService safeAccountAddress
                         [newOwnerAddress] 1 guardian1 guardian1Signature)
                  (CreateRecoveryRequest recoveryService safeAccountAddress [newOwnerAddress] 1
                     guardian1 guardian1Signature) t
                  (\<lambda>recoveryRequest t.
                     await (signTypedData (rt w) t guardian2 (RecoveryRequestEip712Data eip712))
                       (SignTypedData guardian2 (RecoveryRequestEip712Data eip712)) t
                       (\<lambda>guardian2Signature t.
                          await (submitGuardianSignatureForRecoveryRequest (guardianSvc w) t
                                   recoveryService (rr_id recoveryRequest) guardian2
                                   guardian2Signature)
                            (SubmitGuardianSignatureForRecoveryRequest recoveryService
                               (rr_id recoveryRequest) guardian2 guardian2Signature) t
                            (\<lambda>_ t.
                               guardianFlow_execute w env recoveryService safeAccountAddress
                                 (rr_id recoveryRequest) t))))))"

text \<open>Step 1: the configuration, the guardian accounts, the Safe and the new owner.\<close>

definition guardianFlow_main :: "env \<Rightarrow> world \<Rightarrow> run" where
  "guardianFlow_main env w =
     (let missing = missingEnvVars env guardianFlow_requiredEnvVars in
      if length missing > 0
      then ([], Rejected (Error (''Missing required env vars: '' @ join '', '' missing)))
      else
        attempt (bigIntOfString (rt w) (env ''CHAIN_ID'')) []
          (\<lambda>chainId.
             attempt (privateKeyToAccount (rt w) (env ''GUARDIAN_1_PRIVATE_KEY'')) []
               (\<lambda>guardian1.
                  attempt (privateKeyToAccount (rt w) (env ''GUARDIAN_2_PRIVATE_KEY'')) []
                    (\<lambda>guardian2.
                       safeAccountAddressOrAsk w env ''Enter Safe account address: '' []
                         (\<lambda>safeAccountAddress t.
                            newOwnerOrGenerate w env t
                              (\<lambda>newOwnerAddress t.
                                 guardianFlow_collectSignatures w env chainId guardian1 guardian2
                                   safeAccountAddress newOwnerAddress t))))))"

section \<open>The email/SMS recovery flow (src/unnamed/part\_000)\<close>

definition otpFlow_requiredEnvVars :: "string list" where
  "otpFlow_requiredEnvVars = [''CHAIN_ID'', ''RECOVERY_SERVICE_URL'', ''NODE_URL'']"

text \<open>Step 5 and after: create and execute the request, then steps 6 to 8.\<close>

definition otpFlow_execute :: "world \<Rightarrow> env \<Rightarrow> recoveryByCustodialGuardian \<Rightarrow> recoveryByGuardian
    \<Rightarrow> jsstring \<Rightarrow> address \<Rightarrow> string \<Rightarrow> string \<Rightarrow> event list \<Rightarrow> run" where
  "otpFlow_execute w env custodialGuardianService recoveryService safeAccountAddress newOwnerAddress
       guardianAddress guardianSignature t =
     await (createAndExecuteRecoveryRequest (custodialSvc w) t custodialGuardianService
              safeAccountAddress [newOwnerAddress] 1 guardianAddress guardianSignature)
       (CreateAndExecuteRecoveryRequest custodialGuardianService safeAccountAddress
          [newOwnerAddress] 1 guardianAddress guardianSignature) t
       (\<lambda>recoveryRequest t.
          awaitGracePeriodAndFinalize w recoveryService (rr_id recoveryRequest) safeAccountAddress
            (env ''NODE_URL'') t)"

text \<open>
  The guard after the loop: the last verification result must exist and hold a guardian
  address and a guardian signature.
\<close>

definition otpFlow_checkSignature :: "world \<Rightarrow> env \<Rightarrow> recoveryByCustodialGuardian
    \<Rightarrow> recoveryByGuardian \<Rightarrow> jsstring \<Rightarrow> address \<Rightarrow> verificationResult option \<Rightarrow> event list \<Rightarrow> run" where
  "otpFlow_checkSignature w env custodialGuardianService recoveryService safeAccountAddress
       newOwnerAddress verificationResult t =
     (case verificationResult of
        None \<Rightarrow>
          (t @ [ConsoleLog ''Error: Failed to obtain guardian signature after verification'', RlClose],
           Resolved)
      | Some r \<Rightarrow>
          if \<not> truthy (custodianGuardianAddress r) \<or> \<not> truthy (custodianGuardianSignature r)
          then (t @ [ConsoleLog ''Error: Failed to obtain guardian signature after verification'',
                     RlClose],
                Resolved)
          else otpFlow_execute w env custodialGuardianService recoveryService safeAccountAddress
                 newOwnerAddress (toString (custodianGuardianAddress r))
                 (toString (custodianGuardianSignature r)) t)"

text \<open>
  Step 4, the loop \<^verbatim>\<open>for (const auth of signatureRequest.auths)\<close>: one prompt and one
  submission per channel; the first result that is not a success closes the readline
  interface and returns from \<^verbatim>\<open>main\<close>.
\<close>

fun otpFlow_verifyIdentity :: "world \<Rightarrow> recoveryByCustodialGuardian \<Rightarrow> string \<Rightarrow> auth list
    \<Rightarrow> verificationResult option \<Rightarrow> event list
    \<Rightarrow> (verificationResult option \<Rightarrow> event list \<Rightarrow> run) \<Rightarrow> run" where
  "otpFlow_verifyIdentity w svc rid [] verificationResult t k = k verificationResult t"
| "otpFlow_verifyIdentity w svc rid (a # rest) verificationResult t k =
     askQuestion w (''OTP sent to '' @ auth_target a @ '' - enter code: '') t
       (\<lambda>otpCode t.
          await (submitCustodialGuardianSignatureChallenge (custodialSvc w) t svc rid
                   (auth_challengeId a) otpCode)
            (SubmitCustodialGuardianSignatureChallenge svc rid (auth_challengeId a) otpCode) t
            (\<lambda>r t.
               if vr_success r
               then otpFlow_verifyIdentity w svc rid rest (Some r)
                      (t @ [ConsoleLog (auth_channel a @ '' verified'')]) k
               else (t @ [ConsoleLog (auth_channel a @ '' verification failed''), RlClose],
                     Resolved)))"

text \<open>Steps 2 and 3: the two services and the signature challenge.\<close>

definition otpFlow_requestChallenge :: "world \<Rightarrow> env \<Rightarrow> int \<Rightarrow> jsstring \<Rightarrow> address \<Rightarrow> event list
    \<Rightarrow> run" where
  "otpFlow_requestChallenge w env chainId safeAccountAddress newOwnerAddress t =
     (let custodialGuardianService =
            RecoveryByCustodialGuardian (env ''RECOVERY_SERVICE_URL'') chainId;
          recoveryService = RecoveryByGuardian (env ''RECOVERY_SERVICE_URL'') chainId After3Minutes
      in
      await (requestCustodialGuardianSignatureChallenge (custodialSvc w) t custodialGuardianService
               safeAccountAddress [newOwnerAddress] 1)
        (RequestCustodialGuardianSignatureChallenge custodialGuardianService safeAccountAddress
           [newOwnerAddress] 1) t
        (\<lambda>signatureRequest t.
           otpFlow_verifyIdentity w custodialGuardianService (requestId signatureRequest)
             (auths signatureRequest) None t
             (otpFlow_checkSignature w env custodialGuardianService recoveryService
                safeAccountAddress newOwnerAddress)))"

text \<open>Step 1: the configuration, the Safe and the new owner.\<close>

definition otpFlow_main :: "env \<Rightarrow> world \<Rightarrow> run" where
  "otpFlow_main env w =
     (let missing = missingEnvVars env otpFlow_requiredEnvVars in
      if length missing > 0
      then ([], Rejected (Error (''Missing required env vars: '' @ join '', '' missing)))
      else
        attempt (bigIntOfString (rt w) (env ''CHAIN_ID'')) []
          (\<lambda>chainId.
             safeAccountAddressOrAsk w env ''Enter Safe account address: '' []
               (\<lambda>safeAccountAddress t.
                  newOwnerOrGenerate w env t
                    (\<lambda>newOwnerAddress t.
                       otpFlow_requestChallenge w env chainId safeAccountAddress
                         newOwnerAddress t))))"

section \<open>Enable email/SMS recovery (src/unnamed/part\_001)\<close>

definition enableRecovery_requiredEnvVars :: "string list" where
  "enableRecovery_requiredEnvVars =
     [''CHAIN_ID'', ''RECOVERY_SERVICE_URL'', ''BUNDLER_URL'', ''NODE_URL'', ''PAYMASTER_URL'',
      ''ENTRY_POINT_ADDRESS'']"

text \<open>
  \<^verbatim>\<open>signSafeMessage\<close>: wrap the message in the Safe's EIP-712 data (with
  \<^verbatim>\<open>BigInt(chainId)\<close>, \<^verbatim>\<open>chainId\<close> being \<^verbatim>\<open>Number(process.env.CHAIN_ID)\<close>), let the owner
  sign it and format the signature for the Safe contract.
\<close>

definition signSafeMessage :: "world \<Rightarrow> address \<Rightarrow> jsstring \<Rightarrow> message \<Rightarrow> address \<Rightarrow> event list
    \<Rightarrow> (signature \<Rightarrow> event list \<Rightarrow> run) \<Rightarrow> run" where
  "signSafeMessage w accountAddress chainId msg ownerAccount t k =
     attempt (bigIntOfNumber (rt w) chainId) t
       (\<lambda>chainIdBig.
          let safeTypedData = SafeMessageEip712Data accountAddress chainIdBig msg in
          await (signTypedData (rt w) t ownerAccount safeTypedData)
            (SignTypedData ownerAccount safeTypedData) t
            (\<lambda>ownerSignature t.
               k (BuildSignaturesFromSingerSignaturePairs ownerAccount ownerSignature) t))"

text \<open>Step 7: list the registrations, then clean up.\<close>

definition enableRecovery_verifySetup :: "world \<Rightarrow> env \<Rightarrow> recoveryByCustodialGuardian \<Rightarrow> address
    \<Rightarrow> address \<Rightarrow> event list \<Rightarrow> run" where
  "enableRecovery_verifySetup w env guardianService accountAddress ownerAccount t =
     (let registrationsSiweMessage = RegistrationsSiwe accountAddress in
      signSafeMessage w accountAddress (env ''CHAIN_ID'') registrationsSiweMessage ownerAccount t
        (\<lambda>registrationsSignature t.
           await (getRegistrations (custodialSvc w) t guardianService accountAddress
                    registrationsSiweMessage registrationsSignature)
             (GetRegistrations guardianService accountAddress registrationsSiweMessage
                registrationsSignature) t
             (\<lambda>registrations t. (t @ [DisposeAccount, DisposeWallet, RlClose], Resolved))))"

text \<open>Step 6: add the guardian on-chain, in a UserOperation of its own.\<close>

definition enableRecovery_addGuardian :: "world \<Rightarrow> env \<Rightarrow> socialRecoveryModule
    \<Rightarrow> recoveryByCustodialGuardian \<Rightarrow> address \<Rightarrow> address \<Rightarrow> address \<Rightarrow> event list \<Rightarrow> run" where
  "enableRecovery_addGuardian w env srm guardianService accountAddress ownerAccount
       candideGuardianAddress t =
     (if candideGuardianAddress = []
      then (t @ [ConsoleLog ''No guardian address obtained'', RlClose], Resolved)
      else
        let addGuardianTx = AddGuardianWithThresholdMetaTransaction srm candideGuardianAddress 1 in
        await (sendTransaction (wallet w) t [addGuardianTx]) (SendTransaction [addGuardianTx]) t
          (\<lambda>addResult_hash t.
             waitForUserOperation w addResult_hash (env ''BUNDLER_URL'') (env ''ENTRY_POINT_ADDRESS'') t
               (\<lambda>guardianReceipt t.
                  if \<not> receipt_success guardianReceipt
                  then (t @ [ConsoleLog ''Failed to add guardian'', RlClose], Resolved)
                  else enableRecovery_verifySetup w env guardianService accountAddress
                         ownerAccount t)))"

text \<open>Step 5, second part: register the phone number when SMS was chosen.\<close>

definition enableRecovery_registerSms :: "world \<Rightarrow> env \<Rightarrow> socialRecoveryModule
    \<Rightarrow> recoveryByCustodialGuardian \<Rightarrow> address \<Rightarrow> address \<Rightarrow> bool \<Rightarrow> bool \<Rightarrow> string \<Rightarrow> address
    \<Rightarrow> event list \<Rightarrow> run" where
  "enableRecovery_registerSms w env srm guardianService accountAddress ownerAccount enableEmail
       enableSms finalUserPhone candideGuardianAddress t =
     (if enableSms
      then
        let siweMessage = RegistrationToSmsRecoverySiwe accountAddress finalUserPhone in
        signSafeMessage w accountAddress (env ''CHAIN_ID'') siweMessage ownerAccount t
          (\<lambda>signature t.
             await (createRegistrationToSmsRecovery (custodialSvc w) t guardianService
                      accountAddress finalUserPhone siweMessage signature)
               (CreateRegistrationToSmsRecovery guardianService accountAddress finalUserPhone
                  siweMessage signature) t
               (\<lambda>challengeId t.
                  askQuestion w (''OTP sent to '' @ finalUserPhone @ '' - enter code: '') t
                    (\<lambda>otpCode t.
                       await (submitRegistrationChallenge (custodialSvc w) t guardianService
                                challengeId otpCode)
                         (SubmitRegistrationChallenge guardianService challengeId otpCode) t
                         (\<lambda>result_guardianAddress t.
                            enableRecovery_addGuardian w env srm guardianService accountAddress
                              ownerAccount
                              (if \<not> enableEmail then result_guardianAddress
                               else candideGuardianAddress)
                              (t @ [ConsoleLog ''SMS registered''])))))
      else enableRecovery_addGuardian w env srm guardianService accountAddress ownerAccount
             candideGuardianAddress t)"

text \<open>Step 5, first part: register the email address when email was chosen.\<close>

definition enableRecovery_registerEmail :: "world \<Rightarrow> env \<Rightarrow> socialRecoveryModule
    \<Rightarrow> recoveryByCustodialGuardian \<Rightarrow> address \<Rightarrow> address \<Rightarrow> bool \<Rightarrow> bool \<Rightarrow> jsstring \<Rightarrow> string
    \<Rightarrow> event list \<Rightarrow> run" where
  "enableRecovery_registerEmail w env srm guardianService accountAddress ownerAccount enableEmail
       enableSms finalUserEmail finalUserPhone t =
     (if enableEmail
      then
        let siweMessage = RegistrationToEmailRecoverySiwe accountAddress finalUserEmail in
        signSafeMessage w accountAddress (env ''CHAIN_ID'') siweMessage ownerAccount t
          (\<lambda>signature t.
             await (createRegistrationToEmailRecovery (custodialSvc w) t guardianService
                      accountAddress finalUserEmail siweMessage signature)
               (CreateRegistrationToEmailRecovery guardianService accountAddress finalUserEmail
                  siweMessage signature) t
               (\<lambda>challengeId t.
                  askQuestion w (''OTP sent to '' @ toString finalUserEmail @ '' - enter code: '') t
                    (\<lambda>otpCode t.
                       await (submitRegistrationChallenge (custodialSvc w) t guardianService
                                challengeId otpCode)
                         (SubmitRegistrationChallenge guardianService challengeId otpCode) t
                         (\<lambda>result_guardianAddress t.
                            enableRecovery_registerSms w env srm guardianService accountAddress
                              ownerAccount enableEmail enableSms finalUserPhone
                              result_guardianAddress
                              (t @ [ConsoleLog ''Email registered''])))))
      else enableRecovery_registerSms w env srm guardianService accountAddress ownerAccount
             enableEmail enableSms finalUserPhone [] t)"

text \<open>Step 5, head: the guardian service and the owner account.\<close>

definition enableRecovery_register :: "world \<Rightarrow> env \<Rightarrow> socialRecoveryModule \<Rightarrow> address \<Rightarrow> string
    \<Rightarrow> bool \<Rightarrow> bool \<Rightarrow> jsstring \<Rightarrow> string \<Rightarrow> event list \<Rightarrow> run" where
  "enableRecovery_register w env srm accountAddress seedPhrase enableEmail enableSms finalUserEmail
       finalUserPhone t =
     attempt (bigIntOfNumber (rt w) (env ''CHAIN_ID'')) t
       (\<lambda>chainIdBig.
          let guardianService =
                RecoveryByCustodialGuardian (env ''RECOVERY_SERVICE_URL'') chainIdBig in
          attempt (mnemonicToAccount (rt w) (Some seedPhrase)) t
            (\<lambda>ownerAccount.
               enableRecovery_registerEmail w env srm guardianService accountAddress ownerAccount
                 enableEmail enableSms finalUserEmail finalUserPhone t))"

text \<open>Step 4: the channel prompt.\<close>

definition enableRecovery_chooseChannels :: "world \<Rightarrow> env \<Rightarrow> socialRecoveryModule \<Rightarrow> address
    \<Rightarrow> string \<Rightarrow> event list \<Rightarrow> run" where
  "enableRecovery_chooseChannels w env srm accountAddress seedPhrase t =
     askQuestion w ''Enter choice (1-3): '' t
       (\<lambda>answer t.
          let choice = parseInt answer in
          if numLess choice 1 \<or> numGreater choice 3
          then (t @ [ConsoleLog ''Invalid choice'', RlClose], Resolved)
          else
            let enableEmail = (choice = Some 1 \<or> choice = Some 3);
                enableSms = (choice = Some 2 \<or> choice = Some 3)
            in
            valueOrAsk w enableEmail (env ''USER_EMAIL'') ''Enter your email address: '' t
              (\<lambda>finalUserEmail t.
                 if enableSms
                 then askQuestion w ''Enter your phone number (+1234567890): '' t
                        (\<lambda>finalUserPhone t.
                           enableRecovery_register w env srm accountAddress seedPhrase enableEmail
                             enableSms finalUserEmail finalUserPhone t)
                 else enableRecovery_register w env srm accountAddress seedPhrase enableEmail
                        enableSms finalUserEmail [] t))"

text \<open>Step 3: enable the module unless it is enabled, in a UserOperation of its own.\<close>

definition enableRecovery_deploySafe :: "world \<Rightarrow> env \<Rightarrow> address \<Rightarrow> string \<Rightarrow> event list \<Rightarrow> run" where
  "enableRecovery_deploySafe w env accountAddress seedPhrase t =
     (let srm = SocialRecoveryModule After3Minutes in
      await (isModuleEnabled (kit w) t accountAddress (env ''NODE_URL'') (moduleAddress (kit w) srm))
        (IsModuleEnabled accountAddress (env ''NODE_URL'') (moduleAddress (kit w) srm)) t
        (\<lambda>moduleAlreadyEnabled t.
           if moduleAlreadyEnabled
           then enableRecovery_chooseChannels w env srm accountAddress seedPhrase
                  (t @ [ConsoleLog ''Social Recovery Module already enabled - skipping enablement''])
           else
             let enableModuleTx = EnableModuleMetaTransaction srm accountAddress in
             await (sendTransaction (wallet w) t [enableModuleTx]) (SendTransaction [enableModuleTx]) t
               (\<lambda>deployResult_hash t.
                  waitForUserOperation w deployResult_hash (env ''BUNDLER_URL'')
                    (env ''ENTRY_POINT_ADDRESS'') t
                    (\<lambda>receipt t.
                       if \<not> receipt_success receipt
                       then (t @ [ConsoleLog ''Failed to enable Social Recovery Module'', RlClose],
                             Resolved)
                       else enableRecovery_chooseChannels w env srm accountAddress seedPhrase t))))"

text \<open>Steps 1 and 2: the configuration and the account.\<close>

definition enableRecovery_main :: "env \<Rightarrow> world \<Rightarrow> run" where
  "enableRecovery_main env w =
     (let missing = missingEnvVars env enableRecovery_requiredEnvVars in
      if length missing > 0
      then ([], Rejected (Error (''Missing required: '' @ join '', '' missing)))
      else
        seedPhraseOrGenerate w env []
          (\<lambda>seedPhrase t.
             initializeSafeAccount w env (Some seedPhrase) t
               (\<lambda>accountAddress t. enableRecovery_deploySafe w env accountAddress seedPhrase t)))"

section \<open>recovery/shared/setup-alerts\<close>

definition alerts_requiredEnvVars :: "string list" where
  "alerts_requiredEnvVars = [''CHAIN_ID'', ''RECOVERY_SERVICE_URL'', ''SEED_PHRASE'']"

text \<open>Step 7: list the active subscriptions and close.\<close>

definition alerts_verifySubscriptions :: "world \<Rightarrow> alerts \<Rightarrow> jsstring \<Rightarrow> address \<Rightarrow> event list \<Rightarrow> run" where
  "alerts_verifySubscriptions w alertsService safeAccountAddress ownerAccount t =
     (let verifySiweMessage = SubscriptionsSiwe ownerAccount in
      await (signMessage (rt w) t ownerAccount verifySiweMessage)
        (SignMessage ownerAccount verifySiweMessage) t
        (\<lambda>verifySignature t.
           await (getActiveSubscriptions (alertsSvc w) t alertsService safeAccountAddress
                    ownerAccount verifySiweMessage verifySignature)
             (GetActiveSubscriptions alertsService safeAccountAddress ownerAccount
                verifySiweMessage verifySignature) t
             (\<lambda>activeSubscriptions t. (t @ [RlClose], Resolved))))"

text \<open>
  \<^verbatim>\<open>try { const result = await alertsService.activateSubscription(id, otpCode); ... }
  catch (error) { console.error(...) }\<close>: the call and the line it leaves on the console;
  a rejection is caught and the script goes on.
\<close>

definition alerts_activate :: "world \<Rightarrow> alerts \<Rightarrow> string \<Rightarrow> string \<Rightarrow> string \<Rightarrow> string
    \<Rightarrow> event list \<Rightarrow> event list" where
  "alerts_activate w alertsService subscriptionId otpCode activated failed t =
     (let r = activateSubscription (alertsSvc w) t alertsService subscriptionId otpCode in
      t @ [ActivateSubscription alertsService subscriptionId otpCode r,
           (case r of
              Inl e \<Rightarrow> ConsoleError e
            | Inr result \<Rightarrow> ConsoleLog (if result then activated else failed))])"

text \<open>Step 6: the SMS subscription.\<close>

definition alerts_subscribeSms :: "world \<Rightarrow> alerts \<Rightarrow> jsstring \<Rightarrow> address \<Rightarrow> bool \<Rightarrow> jsstring
    \<Rightarrow> event list \<Rightarrow> run" where
  "alerts_subscribeSms w alertsService safeAccountAddress ownerAccount enableSms finalUserPhone t =
     (if enableSms
      then
        let smsSiweMessage = SubscriptionSiwe safeAccountAddress ownerAccount ''sms'' finalUserPhone in
        await (signMessage (rt w) t ownerAccount smsSiweMessage)
          (SignMessage ownerAccount smsSiweMessage) t
          (\<lambda>smsSignature t.
             await (createSubscription (alertsSvc w) t alertsService safeAccountAddress ownerAccount
                      ''sms'' finalUserPhone smsSiweMessage smsSignature)
               (CreateSubscription alertsService safeAccountAddress ownerAccount ''sms''
                  finalUserPhone smsSiweMessage smsSignature) t
               (\<lambda>smsSubscriptionId t.
                  askQuestion w (''OTP sent to '' @ toString finalUserPhone @ '' - enter code: '') t
                    (\<lambda>otpCode t.
                       alerts_verifySubscriptions w alertsService safeAccountAddress ownerAccount
                         (alerts_activate w alertsService smsSubscriptionId otpCode
                            ''SMS alerts activated'' ''Failed to activate SMS alerts'' t))))
      else alerts_verifySubscriptions w alertsService safeAccountAddress ownerAccount t)"

text \<open>Step 5: the email subscription.\<close>

definition alerts_subscribeEmail :: "world \<Rightarrow> alerts \<Rightarrow> jsstring \<Rightarrow> address \<Rightarrow> bool \<Rightarrow> bool
    \<Rightarrow> jsstring \<Rightarrow> jsstring \<Rightarrow> event list \<Rightarrow> run" where
  "alerts_subscribeEmail w alertsService safeAccountAddress ownerAccount enableEmail enableSms
       finalUserEmail finalUserPhone t =
     (if enableEmail
      then
        let emailSiweMessage = EmailSubscriptionSiwe safeAccountAddress ownerAccount finalUserEmail in
        await (signMessage (rt w) t ownerAccount emailSiweMessage)
          (SignMessage ownerAccount emailSiweMessage) t
          (\<lambda>emailSignature t.
             await (createEmailSubscription (alertsSvc w) t alertsService safeAccountAddress
                      ownerAccount finalUserEmail emailSiweMessage emailSignature)
               (CreateEmailSubscription alertsService safeAccountAddress ownerAccount
                  finalUserEmail emailSiweMessage emailSignature) t
               (\<lambda>emailSubscriptionId t.
                  askQuestion w (''OTP sent to '' @ toString finalUserEmail @ '' - enter code: '') t
                    (\<lambda>otpCode t.
                       alerts_subscribeSms w alertsService safeAccountAddress ownerAccount enableSms
                         finalUserPhone
                         (alerts_activate w alertsService emailSubscriptionId otpCode
                            ''Email alerts activated'' ''Failed to activate email alerts'' t))))
      else alerts_subscribeSms w alertsService safeAccountAddress ownerAccount enableSms
             finalUserPhone t)"

text \<open>Step 4: the channel prompt.\<close>

definition alerts_chooseChannels :: "world \<Rightarrow> env \<Rightarrow> alerts \<Rightarrow> jsstring \<Rightarrow> address \<Rightarrow> event list
    \<Rightarrow> run" where
  "alerts_chooseChannels w env alertsService safeAccountAddress ownerAccount t =
     askQuestion w ''Enter choice (1-3): '' t
       (\<lambda>answer t.
          let choice = parseInt answer in
          if numLess choice 1 \<or> numGreater choice 3
          then (t @ [ConsoleLog ''Invalid choice'', RlClose], Resolved)
          else
            let enableEmail = (choice = Some 1 \<or> choice = Some 3);
                enableSms = (choice = Some 2 \<or> choice = Some 3)
            in
            valueOrAsk w enableEmail (env ''USER_EMAIL'') ''Enter your email address: '' t
              (\<lambda>finalUserEmail t.
                 valueOrAsk w enableSms (env ''USER_PHONE'')
                   ''Enter your phone number (+1234567890): '' t
                   (\<lambda>finalUserPhone t.
                      alerts_subscribeEmail w alertsService safeAccountAddress ownerAccount
                        enableEmail enableSms finalUserEmail finalUserPhone t)))"

text \<open>Step 3: the subscriptions that exist.\<close>

definition alerts_checkExisting :: "world \<Rightarrow> env \<Rightarrow> alerts \<Rightarrow> jsstring \<Rightarrow> address \<Rightarrow> event list
    \<Rightarrow> run" where
  "alerts_checkExisting w env alertsService safeAccountAddress ownerAccount t =
     (let getSubsSiweMessage = SubscriptionsSiwe ownerAccount in
      await (signMessage (rt w) t ownerAccount getSubsSiweMessage)
        (SignMessage ownerAccount getSubsSiweMessage) t
        (\<lambda>getSubsSignature t.
           await (getActiveSubscriptions (alertsSvc w) t alertsService safeAccountAddress
                    ownerAccount getSubsSiweMessage getSubsSignature)
             (GetActiveSubscriptions alertsService safeAccountAddress ownerAccount
                getSubsSiweMessage getSubsSignature) t
             (\<lambda>existingSubscriptions t.
                alerts_chooseChannels w env alertsService safeAccountAddress ownerAccount t)))"

text \<open>Steps 1 and 2: the configuration, the owner account and the alerts service.\<close>

definition alerts_main :: "env \<Rightarrow> world \<Rightarrow> run" where
  "alerts_main env w =
     (let missing = missingEnvVars env alerts_requiredEnvVars in
      if length missing > 0
      then ([], Rejected (Error (''Missing required env vars: '' @ join '', '' missing)))
      else
        safeAccountAddressOrAsk w env ''Enter your Safe account address: '' []
          (\<lambda>safeAccountAddress t.
             attempt (mnemonicToAccount (rt w) (env ''SEED_PHRASE'')) t
               (\<lambda>ownerAccount.
                  attempt (bigIntOfNumber (rt w) (env ''CHAIN_ID'')) t
                    (\<lambda>chainIdBig.
                       alerts_checkExisting w env (Alerts (env ''RECOVERY_SERVICE_URL'') chainIdBig)
                         safeAccountAddress ownerAccount t))))"

section \<open>The scripts that define \<open>main\<close>\<close>

datatype script =
    AddPersonalGuardian
  | RecoveryFlowPersonalGuardian
  | EnableEmailSmsRecovery
  | RecoveryFlowEmailSms
  | SetupAlerts
  | CancelRecovery

fun requiredEnvVars :: "script \<Rightarrow> string list" where
  "requiredEnvVars AddPersonalGuardian = addGuardian_requiredEnvVars"
| "requiredEnvVars RecoveryFlowPersonalGuardian = guardianFlow_requiredEnvVars"
| "requiredEnvVars EnableEmailSmsRecovery = enableRecovery_requiredEnvVars"
| "requiredEnvVars RecoveryFlowEmailSms = otpFlow_requiredEnvVars"
| "requiredEnvVars SetupAlerts = alerts_requiredEnvVars"
| "requiredEnvVars CancelRecovery = cancel_requiredEnvVars"

fun main :: "script \<Rightarrow> env \<Rightarrow> world \<Rightarrow> run" where
  "main AddPersonalGuardian = addGuardian_main"
| "main RecoveryFlowPersonalGuardian = guardianFlow_main"
| "main EnableEmailSmsRecovery = enableRecovery_main"
| "main RecoveryFlowEmailSms = otpFlow_main"
| "main SetupAlerts = alerts_main"
| "main CancelRecovery = cancel_main"

section \<open>Reading traces\<close>

text \<open>Classifiers of events, used to state what a run did or did not do.\<close>

definition submitsTransaction :: "event \<Rightarrow> bool" where
  "submitsTransaction e = (case e of SendTransaction _ _ \<Rightarrow> True | _ \<Rightarrow> False)"

definition isFinalize :: "event \<Rightarrow> bool" where
  "isFinalize e = (case e of FinalizeRecoveryRequest _ _ _ \<Rightarrow> True | _ \<Rightarrow> False)"

text \<open>The durations of the timers of a trace, in order.\<close>

definition timersOf :: "event list \<Rightarrow> nat list" where
  "timersOf t = concat (map (\<lambda>e. case e of SetTimeout ms \<Rightarrow> [ms] | _ \<Rightarrow> []) t)"

definition isGetOwners :: "event \<Rightarrow> bool" where
  "isGetOwners e = (case e of GetOwners _ _ _ \<Rightarrow> True | _ \<Rightarrow> False)"

definition isCreateAndExecute :: "event \<Rightarrow> bool" where
  "isCreateAndExecute e =
     (case e of CreateAndExecuteRecoveryRequest _ _ _ _ _ _ _ \<Rightarrow> True | _ \<Rightarrow> False)"

definition isSubmission :: "event \<Rightarrow> bool" where
  "isSubmission e =
     (case e of SubmitCustodialGuardianSignatureChallenge _ _ _ _ _ \<Rightarrow> True | _ \<Rightarrow> False)"

text \<open>An OTP submission that came back with a result that is not a success.\<close>

definition isRejectedSubmission :: "event \<Rightarrow> bool" where
  "isRejectedSubmission e =
     (case e of
        SubmitCustodialGuardianSignatureChallenge _ _ _ _ r \<Rightarrow>
          (case r of Inl _ \<Rightarrow> False | Inr v \<Rightarrow> \<not> vr_success v)
      | _ \<Rightarrow> False)"

text \<open>The challenge ids of the OTP submissions of a trace, in order.\<close>

definition submittedChallenges :: "event list \<Rightarrow> string list" where
  "submittedChallenges t =
     concat (map (\<lambda>e. case e of
                        SubmitCustodialGuardianSignatureChallenge _ _ challengeId _ _ \<Rightarrow> [challengeId]
                      | _ \<Rightarrow> []) t)"


definition isModuleCheck :: "event \<Rightarrow> bool" where
  "isModuleCheck e = (case e of IsModuleEnabled _ _ _ _ \<Rightarrow> True | _ \<Rightarrow> False)"

definition isEnableModule :: "metaTransaction \<Rightarrow> bool" where
  "isEnableModule tx = (case tx of EnableModuleMetaTransaction _ _ \<Rightarrow> True | _ \<Rightarrow> False)"

definition isAddGuardian :: "metaTransaction \<Rightarrow> bool" where
  "isAddGuardian tx = (case tx of AddGuardianWithThresholdMetaTransaction _ _ _ \<Rightarrow> True | _ \<Rightarrow> False)"

definition isRejected :: "outcome \<Rightarrow> bool" where
  "isRejected out = (case out of Resolved \<Rightarrow> False | Rejected _ \<Rightarrow> True)"

text \<open>The grace-period selectors an event carries, through the object it was called on.\<close>

fun selectorOfModule :: "socialRecoveryModule \<Rightarrow> gracePeriodSelector" where
  "selectorOfModule (SocialRecoveryModule selector) = selector"

fun selectorOfService :: "recoveryByGuardian \<Rightarrow> gracePeriodSelector" where
  "selectorOfService (RecoveryByGuardian _ _ selector) = selector"

fun selectorOfTransaction :: "metaTransaction \<Rightarrow> gracePeriodSelector" where
  "selectorOfTransaction (EnableModuleMetaTransaction srm _) = selectorOfModule srm"
| "selectorOfTransaction (AddGuardianWithThresholdMetaTransaction srm _ _) = selectorOfModule srm"
| "selectorOfTransaction (CancelRecoveryMetaTransaction srm) = selectorOfModule srm"

definition selectorsOf :: "event \<Rightarrow> gracePeriodSelector list" where
  "selectorsOf e =
     (case e of
        SendTransaction txs _ \<Rightarrow> map selectorOfTransaction txs
      | GetRecoveryRequest srm _ _ _ \<Rightarrow> [selectorOfModule srm]
      | GuardiansAndThreshold srm _ _ _ _ _ \<Rightarrow> [selectorOfModule srm]
      | GetRecoveryRequestEip712Data srm _ _ _ _ _ _ \<Rightarrow> [selectorOfModule srm]
      | CreateRecoveryRequest svc _ _ _ _ _ _ \<Rightarrow> [selectorOfService svc]
      | SubmitGuardianSignatureForRecoveryRequest svc _ _ _ _ \<Rightarrow> [selectorOfService svc]
      | ExecuteRecoveryRequest svc _ _ \<Rightarrow> [selectorOfService svc]
      | GetExecutedRecoveryRequestForLatestNonce svc _ _ _ \<Rightarrow> [selectorOfService svc]
      | FinalizeRecoveryRequest svc _ _ \<Rightarrow> [selectorOfService svc]
      | _ \<Rightarrow> [])"

text \<open>
  An event addresses the three-minute module: every selector it carries is
  \<open>After3Minutes\<close>, and a module check asks about the address of that module.
\<close>

definition addressesAfter3Minutes :: "world \<Rightarrow> event \<Rightarrow> bool" where
  "addressesAfter3Minutes w e =
     ((\<forall>selector \<in> set (selectorsOf e). selector = After3Minutes) \<and>
      (case e of
         IsModuleEnabled _ _ module _ \<Rightarrow>
           module = moduleAddress (kit w) (SocialRecoveryModule After3Minutes)
       | _ \<Rightarrow> True))"

text \<open>The events of the email and of the SMS path of the two scripts with a channel prompt.\<close>

definition isEmailMessage :: "message \<Rightarrow> bool" where
  "isEmailMessage m =
     (case m of
        RegistrationToEmailRecoverySiwe _ _ \<Rightarrow> True
      | EmailSubscriptionSiwe _ _ _ \<Rightarrow> True
      | _ \<Rightarrow> False)"

definition isSmsMessage :: "message \<Rightarrow> bool" where
  "isSmsMessage m =
     (case m of
        RegistrationToSmsRecoverySiwe _ _ \<Rightarrow> True
      | SubscriptionSiwe _ _ _ _ \<Rightarrow> True
      | _ \<Rightarrow> False)"

definition messageOf :: "event \<Rightarrow> message option" where
  "messageOf e =
     (case e of
        SignMessage _ m _ \<Rightarrow> Some m
      | SignTypedData _ d _ \<Rightarrow>
          (case d of SafeMessageEip712Data _ _ m \<Rightarrow> Some m | RecoveryRequestEip712Data _ \<Rightarrow> None)
      | CreateRegistrationToEmailRecovery _ _ _ m _ _ \<Rightarrow> Some m
      | CreateRegistrationToSmsRecovery _ _ _ m _ _ \<Rightarrow> Some m
      | CreateEmailSubscription _ _ _ _ m _ _ \<Rightarrow> Some m
      | CreateSubscription _ _ _ _ _ m _ _ \<Rightarrow> Some m
      | _ \<Rightarrow> None)"

definition onEmailPath :: "event \<Rightarrow> bool" where
  "onEmailPath e = (case messageOf e of None \<Rightarrow> False | Some m \<Rightarrow> isEmailMessage m)"

definition onSmsPath :: "event \<Rightarrow> bool" where
  "onSmsPath e = (case messageOf e of None \<Rightarrow> False | Some m \<Rightarrow> isSmsMessage m)"

definition choicePrompt :: string where
  "choicePrompt = ''Enter choice (1-3): ''"

definition isChoicePrompt :: "event \<Rightarrow> bool" where
  "isChoicePrompt e = (case e of AskQuestion q _ \<Rightarrow> q = choicePrompt | _ \<Rightarrow> False)"

text \<open>
  \<open>leads P R t run\<close>: from the trace \<open>t\<close> on, \<open>run\<close> adds events that all satisfy \<open>P\<close> and
  then stands in relation \<open>R\<close> to the trace reached. With \<open>R\<close> the points of interest of
  a script (it ended there, or it went on with a given step), this splits every run at
  the first such point.
\<close>

definition leads :: "(event \<Rightarrow> bool) \<Rightarrow> (event list \<Rightarrow> run \<Rightarrow> bool) \<Rightarrow> event list \<Rightarrow> run \<Rightarrow> bool" where
  "leads P R t run = (\<exists>es. (\<forall>e \<in> set es. P e) \<and> R (t @ es) run)"

text \<open>The run ended at the trace reached.\<close>

definition ended :: "event list \<Rightarrow> run \<Rightarrow> bool" where
  "ended t run = (fst run = t)"

section \<open>Concrete worlds\<close>

text \<open>
  Worlds to run the scripts in: every call succeeds with a fixed answer, except for what
  the scenario says.
\<close>

record scenario =
  sc_choice :: string
  sc_derivedAddress :: address
  sc_executeAfter :: int
  sc_moduleEnabled :: bool
  sc_inclusionSuccess :: bool
  sc_rejectedChallenge :: string
  sc_finalizeResult :: bool

definition plain :: scenario where
  "plain =
     \<lparr> sc_choice = ''3'',
       sc_derivedAddress = ''0xsafe'',
       sc_executeAfter = 1700000000,
       sc_moduleEnabled = False,
       sc_inclusionSuccess = True,
       sc_rejectedChallenge = [],
       sc_finalizeResult = True \<rparr>"

definition scenarioRuntime :: "scenario \<Rightarrow> runtime" where
  "scenarioRuntime sc =
     \<lparr> askAnswer = (\<lambda>t question. if question = choicePrompt then sc_choice sc else ''123456''),
       generateMnemonic = (\<lambda>t. ''seed''),
       generatePrivateKey = (\<lambda>t. ''0xkey''),
       privateKeyToAccount = (\<lambda>key. Inr (''0xG'' @ toString key)),
       mnemonicToAccount = (\<lambda>seedPhrase. Inr ''0xowner''),
       bigIntOfString = (\<lambda>text. Inr 11155111),
       bigIntOfNumber = (\<lambda>text. Inr 11155111),
       signTypedData = (\<lambda>t account data. Inr ''0xsig''),
       signMessage = (\<lambda>t account msg. Inr ''0xsig'') \<rparr>"

definition scenarioWdk :: "scenario \<Rightarrow> wdk" where
  "scenarioWdk sc =
     \<lparr> getAccount = (\<lambda>t seedPhrase config index. Inr ()),
       getAddress = (\<lambda>t. Inr (sc_derivedAddress sc)),
       sendTransaction = (\<lambda>t txs. Inr ''0xhash''),
       included = (\<lambda>t hash bundlerUrl entryPoint.
         Inr \<lparr> receipt_success = sc_inclusionSuccess sc, receipt_transactionHash = ''0xtx'' \<rparr>) \<rparr>"

definition scenarioKit :: "scenario \<Rightarrow> abstractionkit" where
  "scenarioKit sc =
     \<lparr> moduleAddress = (\<lambda>srm. ''0xmodule''),
       getRecoveryRequest = (\<lambda>t srm nodeUrl safe.
         Inr \<lparr> executeAfter = (if list_ex submitsTransaction t then 0 else sc_executeAfter sc),
               newOwners = [''0xnew''], newThreshold = 1 \<rparr>),
       isModuleEnabled = (\<lambda>t safe nodeUrl module. Inr (sc_moduleEnabled sc)),
       guardiansAndThreshold = (\<lambda>t srm nodeUrl safe g1 g2. Inr (True, True, 2)),
       getOwners = (\<lambda>t safe nodeUrl. Inr [''0xnew'']),
       getRecoveryRequestEip712Data = (\<lambda>t srm nodeUrl chainId safe owners threshold. Inr ''eip712'') \<rparr>"

definition scenarioRequest :: recoveryRequest where
  "scenarioRequest =
     \<lparr> rr_id = ''r1'', rr_status = ''EXECUTED'', rr_emoji = ''emoji'',
       rr_executeTransactionHash = ''0xtx'' \<rparr>"

definition scenarioGuardianSvc :: "scenario \<Rightarrow> recoveryService" where
  "scenarioGuardianSvc sc =
     \<lparr> createRecoveryRequest = (\<lambda>t svc safe owners threshold guardian sig. Inr scenarioRequest),
       submitGuardianSignatureForRecoveryRequest = (\<lambda>t svc rid guardian sig. Inr ()),
       executeRecoveryRequest = (\<lambda>t svc rid. Inr ()),
       getExecutedRecoveryRequestForLatestNonce = (\<lambda>t svc nodeUrl safe. Inr (Some scenarioRequest)),
       finalizeRecoveryRequest = (\<lambda>t svc rid. Inr (sc_finalizeResult sc)) \<rparr>"

definition scenarioAuths :: "auth list" where
  "scenarioAuths =
     [\<lparr> auth_channel = ''email'', auth_target = ''a@b.c'', auth_challengeId = ''c1'' \<rparr>,
      \<lparr> auth_channel = ''sms'', auth_target = ''+1'', auth_challengeId = ''c2'' \<rparr>]"

definition scenarioCustodialSvc :: "scenario \<Rightarrow> custodialService" where
  "scenarioCustodialSvc sc =
     \<lparr> requestCustodialGuardianSignatureChallenge = (\<lambda>t svc safe owners threshold.
         Inr \<lparr> requestId = ''q1'', auths = scenarioAuths \<rparr>),
       submitCustodialGuardianSignatureChallenge = (\<lambda>t svc rid challengeId otpCode.
         Inr \<lparr> vr_success = (challengeId \<noteq> sc_rejectedChallenge sc),
               custodianGuardianAddress = Some ''0xcandide'',
               custodianGuardianSignature = Some ''0xsig'' \<rparr>),
       createAndExecuteRecoveryRequest = (\<lambda>t svc safe owners threshold guardian sig.
         Inr scenarioRequest),
       createRegistrationToEmailRecovery = (\<lambda>t svc account email msg sig. Inr ''c1''),
       createRegistrationToSmsRecovery = (\<lambda>t svc account phone msg sig. Inr ''c2''),
       submitRegistrationChallenge = (\<lambda>t svc challengeId otpCode. Inr ''0xcandide''),
       getRegistrations = (\<lambda>t svc account msg sig. Inr []) \<rparr>"

definition scenarioAlertsSvc :: "scenario \<Rightarrow> alertsService" where
  "scenarioAlertsSvc sc =
     \<lparr> getActiveSubscriptions = (\<lambda>t svc safe owner msg sig. Inr []),
       createEmailSubscription = (\<lambda>t svc safe owner email msg sig. Inr ''s1''),
       createSubscription = (\<lambda>t svc safe owner channel target msg sig. Inr ''s2''),
       activateSubscription = (\<lambda>t svc subscriptionId otpCode. Inr True) \<rparr>"

definition scenarioWorld :: "scenario \<Rightarrow> world" where
  "scenarioWorld sc =
     \<lparr> rt = scenarioRuntime sc,
       wallet = scenarioWdk sc,
       kit = scenarioKit sc,
       guardianSvc = scenarioGuardianSvc sc,
       custodialSvc = scenarioCustodialSvc sc,
       alertsSvc = scenarioAlertsSvc sc \<rparr>"

text \<open>An environment with every variable any of the scripts reads.\<close>

definition fullEnv :: env where
  "fullEnv =
     map_of
       [(''CHAIN_ID'', ''11155111''),
        (''NODE_URL'', ''node''),
        (''BUNDLER_URL'', ''bundler''),
        (''PAYMASTER_URL'', ''paymaster''),
        (''ENTRY_POINT_ADDRESS'', ''0xentry''),
        (''RECOVERY_SERVICE_URL'', ''service''),
        (''SEED_PHRASE'', ''seed''),
        (''SAFE_ACCOUNT_ADDRESS'', ''0xSafe''),
        (''GUARDIAN_1_PRIVATE_KEY'', ''k1''),
        (''GUARDIAN_2_PRIVATE_KEY'', ''k2''),
        (''NEW_OWNER_ADDRESS'', ''0xnew''),
        (''USER_EMAIL'', ''a@b.c''),
        (''USER_PHONE'', ''+1'')]"

section \<open>Points of interest of the scripts\<close>

text \<open>
  Events that come before the finalization step, and the point where a flow enters it: a
  run either ends before, or goes on with \<open>awaitGracePeriodAndFinalize\<close>.
\<close>

definition beforeFinalize :: "event \<Rightarrow> bool" where
  "beforeFinalize e = (\<not> isFinalize e \<and> \<not> isGetOwners e)"

definition atGracePeriod :: "world \<Rightarrow> event list \<Rightarrow> run \<Rightarrow> bool" where
  "atGracePeriod w t run =
     (fst run = t \<or> (\<exists>g i s n. run = awaitGracePeriodAndFinalize w g i s n t))"

text \<open>
  Events that come before the OTP loop of the email/SMS flow, and the point where the
  flow enters the loop: right after the signature challenge was granted, with the
  channels of that answer.
\<close>

definition beforeVerification :: "event \<Rightarrow> bool" where
  "beforeVerification e = (\<not> isSubmission e \<and> \<not> isCreateAndExecute e)"

definition atVerification :: "world \<Rightarrow> env \<Rightarrow> event list \<Rightarrow> run \<Rightarrow> bool" where
  "atVerification w env t run =
     (fst run = t \<or>
      (\<exists>svc g s n sr t0 a b c.
         t = t0 @ [RequestCustodialGuardianSignatureChallenge svc a b c (Inr sr)] \<and>
         run = otpFlow_verifyIdentity w svc (requestId sr) (auths sr) None t
                 (otpFlow_checkSignature w env svc g s n)))"

text \<open>
  For the cancel script: the events before the comparison of addresses submit nothing;
  the point of interest is the comparison, reached right after the first successful
  \<open>getAddress\<close>; after it, the only transaction submitted is the cancellation and the
  address is not derived again.
\<close>

definition isDerivedAddress :: "event \<Rightarrow> bool" where
  "isDerivedAddress e =
     (case e of GetAddress r \<Rightarrow> (case r of Inl _ \<Rightarrow> False | Inr _ \<Rightarrow> True) | _ \<Rightarrow> False)"

definition atOwnerCheck :: "world \<Rightarrow> env \<Rightarrow> event list \<Rightarrow> run \<Rightarrow> bool" where
  "atOwnerCheck w env t run =
     ((fst run = t \<and> (\<forall>e \<in> set t. \<not> isDerivedAddress e)) \<or>
      (\<exists>a t0. t = t0 @ [GetAddress (Inr a)] \<and> (\<forall>e \<in> set t0. \<not> isDerivedAddress e) \<and>
         run = cancel_confirmOwner w env (SocialRecoveryModule After3Minutes) a t))"

definition cancelsOnly :: "event \<Rightarrow> bool" where
  "cancelsOnly e =
     (case e of
        SendTransaction txs _ \<Rightarrow>
          txs = [CancelRecoveryMetaTransaction (SocialRecoveryModule After3Minutes)]
      | GetAddress _ \<Rightarrow> False
      | _ \<Rightarrow> True)"



section \<open>Properties\<close>

subsection \<open>Missing configuration\<close>

lemma sublist_prepend: "sublist u ys \<Longrightarrow> sublist u (ps @ ys)"
  unfolding sublist_def by (metis append.assoc)

lemma join_names: "u \<in> set xs \<Longrightarrow> sublist u (join sep xs)"
proof (induction sep xs rule: join.induct)
  case (1 sep) then show ?case by simp
next
  case (2 sep x) then show ?case by simp
next
  case (3 sep x y ys)
  show ?case
  proof (cases "u = x")
    case True
    then show ?thesis by simp
  next
    case False
    with 3 have "sublist u (join sep (y # ys))" by simp
    then have "sublist u ((x @ sep) @ join sep (y # ys))" by (rule sublist_prepend)
    then show ?thesis by simp
  qed
qed

lemma missing_message:
  "\<forall>u \<in> set req. \<not> truthy (env u) \<longrightarrow> sublist u (p @ join sep (missingEnvVars env req))"
proof (intro ballI impI)
  fix u assume "u \<in> set req" "\<not> truthy (env u)"
  then have "u \<in> set (missingEnvVars env req)" by (simp add: missingEnvVars_def)
  then have "sublist u (join sep (missingEnvVars env req))" by (rule join_names)
  then show "sublist u (p @ join sep (missingEnvVars env req))" by (rule sublist_prepend)
qed

lemma missing_nonempty:
  "v \<in> set req \<Longrightarrow> \<not> truthy (env v) \<Longrightarrow> length (missingEnvVars env req) > 0"
  by (auto simp: missingEnvVars_def filter_empty_conv)

text \<open>
  Claim C8. In every script that defines \<open>main\<close>, when a required environment variable
  is unset (or empty, which the check treats alike), \<open>main\<close> rejects with an error before
  any interaction at all (the trace is empty: no SDK, RPC or HTTP call, no prompt), and
  the message of the error contains the name of every required variable that is missing.
\<close>

theorem missing_configuration_is_fatal:
  assumes "v \<in> set (requiredEnvVars s)" and "\<not> truthy (env v)"
  shows "\<exists>msg. main s env w = ([], Rejected (Error msg)) \<and>
           (\<forall>u \<in> set (requiredEnvVars s). \<not> truthy (env u) \<longrightarrow> sublist u msg)"
proof -
  let ?missing = "missingEnvVars env (requiredEnvVars s)"
  have m: "length ?missing > 0"
    using assms by (rule missing_nonempty)
  have "\<exists>p. main s env w = ([], Rejected (Error (p @ join '', '' ?missing)))"
  proof (cases s)
    case AddPersonalGuardian
    with m have "main s env w = ([], Rejected (Error (''Missing required env vars: '' @ join '', '' ?missing)))"
      by (simp add: addGuardian_main_def)
    then show ?thesis by (rule exI[of _ "''Missing required env vars: ''"])
  next
    case RecoveryFlowPersonalGuardian
    with m have "main s env w = ([], Rejected (Error (''Missing required env vars: '' @ join '', '' ?missing)))"
      by (simp add: guardianFlow_main_def)
    then show ?thesis by (rule exI[of _ "''Missing required env vars: ''"])
  next
    case EnableEmailSmsRecovery
    with m have "main s env w = ([], Rejected (Error (''Missing required: '' @ join '', '' ?missing)))"
      by (simp add: enableRecovery_main_def)
    then show ?thesis by (rule exI[of _ "''Missing required: ''"])
  next
    case RecoveryFlowEmailSms
    with m have "main s env w = ([], Rejected (Error (''Missing required env vars: '' @ join '', '' ?missing)))"
      by (simp add: otpFlow_main_def)
    then show ?thesis by (rule exI[of _ "''Missing required env vars: ''"])
  next
    case SetupAlerts
    with m have "main s env w = ([], Rejected (Error (''Missing required env vars: '' @ join '', '' ?missing)))"
      by (simp add: alerts_main_def)
    then show ?thesis by (rule exI[of _ "''Missing required env vars: ''"])
  next
    case CancelRecovery
    with m have "main s env w = ([], Rejected (Error (''Missing required env vars: '' @ join '', '' ?missing)))"
      by (simp add: cancel_main_def)
    then show ?thesis by (rule exI[of _ "''Missing required env vars: ''"])
  qed
  then obtain p where r: "main s env w = ([], Rejected (Error (p @ join '', '' ?missing)))" ..
  have n: "\<forall>u \<in> set (requiredEnvVars s). \<not> truthy (env u) \<longrightarrow> sublist u (p @ join '', '' ?missing)"
    by (rule missing_message)
  from r n show ?thesis by (intro exI[of _ "p @ join '', '' ?missing"] conjI)
qed

text \<open>
  Claim C7. When the configuration is complete and the request read from the chain has
  \<open>executeAfter = 0\<close>, the cancel script reads that request, prints that there is
  nothing to cancel and returns: no transaction is built or submitted, nothing else is
  called.
\<close>

theorem cancel_without_pending_recovery:
  assumes "missingEnvVars env cancel_requiredEnvVars = []"
      and "getRecoveryRequest (kit w) [] (SocialRecoveryModule After3Minutes) (env ''NODE_URL'')
             (env ''SAFE_ACCOUNT_ADDRESS'') = Inr r"
      and "executeAfter r = 0"
  shows "cancel_main env w =
           ([GetRecoveryRequest (SocialRecoveryModule After3Minutes) (env ''NODE_URL'')
               (env ''SAFE_ACCOUNT_ADDRESS'') (Inr r),
             ConsoleLog ''No pending recovery request found. Nothing to cancel.''],
            Resolved)
         \<and> (\<forall>e \<in> set (fst (cancel_main env w)). \<not> submitsTransaction e)"
  using assms by (simp add: cancel_main_def await_def submitsTransaction_def)

subsection \<open>Rules for \<open>leads\<close>\<close>

lemma leads_here: "R t run \<Longrightarrow> leads P R t run"
  unfolding leads_def by (rule exI[of _ "[]"]) simp

lemma leads_steps: "\<forall>e \<in> set es. P e \<Longrightarrow> leads P R (t @ es) run \<Longrightarrow> leads P R t run"
  unfolding leads_def
proof -
  assume a: "\<forall>e \<in> set es. P e" and "\<exists>es'. (\<forall>e \<in> set es'. P e) \<and> R ((t @ es) @ es') run"
  then obtain es' where b: "\<forall>e \<in> set es'. P e" and c: "R ((t @ es) @ es') run" by blast
  from a b have "\<forall>e \<in> set (es @ es'). P e" by auto
  with c show "\<exists>es. (\<forall>e \<in> set es. P e) \<and> R (t @ es) run" by (intro exI[of _ "es @ es'"]) simp
qed

lemma leads_step: "P e \<Longrightarrow> leads P R (t @ [e]) run \<Longrightarrow> leads P R t run"
  by (rule leads_steps[of "[e]"]) simp_all

lemma leads_await:
  assumes "P (ev r)"
      and "\<And>e. r = Inl e \<Longrightarrow> R (t @ [ev r]) (t @ [ev r], Rejected e)"
      and "\<And>v. r = Inr v \<Longrightarrow> leads P R (t @ [ev r]) (k v (t @ [ev r]))"
  shows "leads P R t (await r ev t k)"
proof (cases r)
  case (Inl e)
  then have "await r ev t k = (t @ [ev r], Rejected e)" by (simp add: await_def)
  with assms(1) assms(2)[OF Inl] show ?thesis by (auto intro: leads_step leads_here)
next
  case (Inr v)
  then have "await r ev t k = k v (t @ [ev r])" by (simp add: await_def)
  with assms(1) assms(3)[OF Inr] show ?thesis by (auto intro: leads_step)
qed

lemma leads_attempt:
  assumes "\<And>e. r = Inl e \<Longrightarrow> R t (t, Rejected e)"
      and "\<And>v. r = Inr v \<Longrightarrow> leads P R t (k v)"
  shows "leads P R t (attempt r t k)"
  using assms by (cases r) (auto simp: attempt_def intro: leads_here)

lemma leads_ask:
  assumes "\<And>a. P (AskQuestion q a)"
      and "\<And>a. leads P R (t @ [AskQuestion q a]) (k a (t @ [AskQuestion q a]))"
  shows "leads P R t (askQuestion w q t k)"
  using assms by (auto simp: askQuestion_def Let_def intro: leads_step)

lemma leads_if:
  assumes "c \<Longrightarrow> leads P R t a" and "\<not> c \<Longrightarrow> leads P R t b"
  shows "leads P R t (if c then a else b)"
  using assms by simp

lemma leads_case_option:
  assumes "x = None \<Longrightarrow> leads P R t a" and "\<And>v. x = Some v \<Longrightarrow> leads P R t (b v)"
  shows "leads P R t (case x of None \<Rightarrow> a | Some v \<Rightarrow> b v)"
  using assms by (cases x) simp_all

lemma leads_ended:
  assumes "\<forall>e \<in> set es. P e" and "R (t @ es) (t @ es, out)"
  shows "leads P R t (t @ es, out)"
  using assms unfolding leads_def by blast

lemma leads_stop: "R t (t, out) \<Longrightarrow> leads P R t (t, out)"
  by (rule leads_here)

lemma leads_await_after:
  assumes "\<forall>e \<in> set es. P e" and "P (ev r)"
      and "\<And>e. r = Inl e \<Longrightarrow> R ((t @ es) @ [ev r]) ((t @ es) @ [ev r], Rejected e)"
      and "\<And>v. r = Inr v \<Longrightarrow> leads P R ((t @ es) @ [ev r]) (k v ((t @ es) @ [ev r]))"
  shows "leads P R t (await r ev (t @ es) k)"
  by (rule leads_steps[OF assms(1)], rule leads_await) (use assms in auto)

lemma leads_attempt_after:
  assumes "\<forall>e \<in> set es. P e"
      and "\<And>e. r = Inl e \<Longrightarrow> R (t @ es) (t @ es, Rejected e)"
      and "\<And>v. r = Inr v \<Longrightarrow> leads P R (t @ es) (k v)"
  shows "leads P R t (attempt r (t @ es) k)"
  by (rule leads_steps[OF assms(1)], rule leads_attempt) (use assms in auto)

lemma leads_ask_after:
  assumes "\<forall>e \<in> set es. P e" and "\<And>a. P (AskQuestion q a)"
      and "\<And>a. leads P R ((t @ es) @ [AskQuestion q a]) (k a ((t @ es) @ [AskQuestion q a]))"
  shows "leads P R t (askQuestion w q (t @ es) k)"
  by (rule leads_steps[OF assms(1)], rule leads_ask) (use assms in auto)

lemmas leads_intros = leads_await leads_await_after leads_attempt leads_attempt_after
  leads_ask leads_ask_after leads_if leads_case_option leads_stop leads_ended

text \<open>The loop of the OTP flow.\<close>

lemma verifyIdentity_leads:
  assumes ask: "\<And>q a. P (AskQuestion q a)"
      and sub: "\<And>c otp r. P (SubmitCustodialGuardianSignatureChallenge svc rid c otp r)"
      and log: "\<And>l. P (ConsoleLog l)" and cl: "P RlClose"
      and stop: "\<And>t out. R t (t, out)"
      and cont: "\<And>vr t'. leads P R t' (k vr t')"
  shows "leads P R t (otpFlow_verifyIdentity w svc rid as vr t k)"
proof (induction as arbitrary: vr t)
  case Nil
  show ?case by (simp add: cont)
next
  case (Cons a as)
  have step: "leads P R t' (otpFlow_verifyIdentity w svc rid as vr' (t' @ [ConsoleLog l]) k)"
    for t' vr' l
    by (rule leads_step[of _ "ConsoleLog l"], rule log, rule Cons.IH)
  show ?case
    apply (simp only: otpFlow_verifyIdentity.simps)
    apply (intro leads_intros step)
    apply (simp_all add: ask sub log cl stop)
    done
qed

subsection \<open>Finalization\<close>

lemma atGracePeriod_ended: "atGracePeriod w t (t, out)"
  by (simp add: atGracePeriod_def)

lemma atGracePeriod_there: "leads P (atGracePeriod w) t (awaitGracePeriodAndFinalize w g i s n t)"
  by (rule leads_here) (auto simp: atGracePeriod_def)

lemma atGracePeriod_there_after:
  "\<forall>e \<in> set es. P e \<Longrightarrow>
   leads P (atGracePeriod w) t (awaitGracePeriodAndFinalize w g i s n (t @ es))"
  by (rule leads_steps, assumption, rule atGracePeriod_there)

lemmas beforeFinalize_defs = beforeFinalize_def isFinalize_def isGetOwners_def

lemma guardianFlow_reaches_finalize:
  "leads beforeFinalize (atGracePeriod w) [] (guardianFlow_main env w)"
  unfolding guardianFlow_main_def guardianFlow_collectSignatures_def guardianFlow_execute_def
    safeAccountAddressOrAsk_def newOwnerOrGenerate_def Let_def
  apply (intro leads_intros atGracePeriod_there atGracePeriod_there_after atGracePeriod_ended)
  apply (simp_all add: beforeFinalize_defs atGracePeriod_ended split: option.splits)
  done

lemma otpFlow_checkSignature_reaches_finalize:
  "leads beforeFinalize (atGracePeriod w) t (otpFlow_checkSignature w env svc g s n vr t)"
  unfolding otpFlow_checkSignature_def otpFlow_execute_def Let_def
  apply (intro leads_intros atGracePeriod_there atGracePeriod_there_after atGracePeriod_ended)
  apply (simp_all add: beforeFinalize_defs atGracePeriod_ended)
  done

lemma otpFlow_reaches_finalize:
  "leads beforeFinalize (atGracePeriod w) [] (otpFlow_main env w)"
  unfolding otpFlow_main_def otpFlow_requestChallenge_def
    safeAccountAddressOrAsk_def newOwnerOrGenerate_def Let_def
  apply (intro leads_intros verifyIdentity_leads otpFlow_checkSignature_reaches_finalize
      atGracePeriod_ended)
  apply (simp_all add: beforeFinalize_defs atGracePeriod_ended)
  done

lemma flows_reach_finalize:
  assumes "s = RecoveryFlowPersonalGuardian \<or> s = RecoveryFlowEmailSms"
  shows "leads beforeFinalize (atGracePeriod w) [] (main s env w)"
  using assms guardianFlow_reaches_finalize otpFlow_reaches_finalize by auto

text \<open>
  Claim C5. In both recovery flows, when \<open>finalizeRecoveryRequest\<close> returns \<open>false\<close>
  (a value, not an exception), \<open>main\<close> returns normally right after reporting the
  failure: that call is the only finalization of the run (no retry) and the owners are
  never read from the chain.
\<close>

theorem failed_finalization_stops_the_flow:
  assumes "s = RecoveryFlowPersonalGuardian \<or> s = RecoveryFlowEmailSms"
      and "FinalizeRecoveryRequest g i (Inr False) \<in> set (fst (main s env w))"
  shows "snd (main s env w) = Resolved
       \<and> filter isFinalize (fst (main s env w)) = [FinalizeRecoveryRequest g i (Inr False)]
       \<and> filter isGetOwners (fst (main s env w)) = []
       \<and> (\<exists>before. fst (main s env w) =
            before @ [FinalizeRecoveryRequest g i (Inr False),
                      ConsoleLog ''Recovery finalization failed'', RlClose])"
proof -
  from flows_reach_finalize[OF assms(1), of w env]
  obtain es where es: "\<forall>e \<in> set es. beforeFinalize e"
    and r: "atGracePeriod w ([] @ es) (main s env w)"
    unfolding leads_def by blast
  have nf: "filter isFinalize es = []" "filter isGetOwners es = []"
    using es by (auto simp: beforeFinalize_def filter_empty_conv)
  from r show ?thesis unfolding atGracePeriod_def
  proof (elim disjE exE)
    assume "fst (main s env w) = [] @ es"
    with assms(2) es show ?thesis by (auto simp: beforeFinalize_defs)
  next
    fix g' i' s' n
    assume "main s env w = awaitGracePeriodAndFinalize w g' i' s' n ([] @ es)"
    with assms(2) es nf show ?thesis
      by (auto simp: awaitGracePeriodAndFinalize_def await_def Let_def beforeFinalize_defs
            split: sum.splits if_splits)
  qed
qed

lemmas flow_defs =
  otpFlow_main_def otpFlow_requestChallenge_def otpFlow_checkSignature_def otpFlow_execute_def
  awaitGracePeriodAndFinalize_def safeAccountAddressOrAsk_def newOwnerOrGenerate_def
  await_def attempt_def askQuestion_def missingEnvVars_def otpFlow_requiredEnvVars_def
  truthy_def toString_def Let_def

lemmas scenario_defs =
  scenarioWorld_def scenarioRuntime_def scenarioWdk_def scenarioKit_def scenarioGuardianSvc_def
  scenarioCustodialSvc_def scenarioAlertsSvc_def scenarioAuths_def scenarioRequest_def
  plain_def fullEnv_def choicePrompt_def

theorem failed_finalization_stops_the_flow_witness:
  "FinalizeRecoveryRequest (RecoveryByGuardian (Some ''service'') 11155111 After3Minutes) ''r1''
       (Inr False)
     \<in> set (fst (main RecoveryFlowEmailSms fullEnv (scenarioWorld (plain\<lparr>sc_finalizeResult := False\<rparr>))))
   \<and> snd (main RecoveryFlowEmailSms fullEnv (scenarioWorld (plain\<lparr>sc_finalizeResult := False\<rparr>)))
       = Resolved
   \<and> filter isGetOwners
        (fst (main RecoveryFlowEmailSms fullEnv (scenarioWorld (plain\<lparr>sc_finalizeResult := False\<rparr>))))
       = []"
proof -
  have h: "FinalizeRecoveryRequest (RecoveryByGuardian (Some ''service'') 11155111 After3Minutes)
             ''r1'' (Inr False)
           \<in> set (fst (main RecoveryFlowEmailSms fullEnv
                          (scenarioWorld (plain\<lparr>sc_finalizeResult := False\<rparr>))))"
    by (simp add: flow_defs scenario_defs)
  from failed_finalization_stops_the_flow[OF _ h] h show ?thesis by simp
qed

theorem missing_configuration_is_fatal_witness:
  "''NODE_URL'' \<in> set (requiredEnvVars CancelRecovery)
   \<and> \<not> truthy ((fullEnv(''NODE_URL'' := None)) ''NODE_URL'')
   \<and> (\<exists>msg. main CancelRecovery (fullEnv(''NODE_URL'' := None)) (scenarioWorld plain)
               = ([], Rejected (Error msg))
            \<and> sublist ''NODE_URL'' msg)"
proof -
  have a: "''NODE_URL'' \<in> set (requiredEnvVars CancelRecovery)"
    by (simp add: cancel_requiredEnvVars_def)
  have b: "\<not> truthy ((fullEnv(''NODE_URL'' := None)) ''NODE_URL'')"
    by (simp add: truthy_def)
  from missing_configuration_is_fatal[of "''NODE_URL''" CancelRecovery
         "fullEnv(''NODE_URL'' := None)" "scenarioWorld plain", OF a b]
  obtain msg where m: "main CancelRecovery (fullEnv(''NODE_URL'' := None)) (scenarioWorld plain)
                        = ([], Rejected (Error msg))"
    and n: "\<forall>u \<in> set (requiredEnvVars CancelRecovery).
              \<not> truthy ((fullEnv(''NODE_URL'' := None)) u) \<longrightarrow> sublist u msg"
    by blast
  from n a b have "sublist ''NODE_URL'' msg" by blast
  with a b m show ?thesis by blast
qed

lemma fullEnv_has_cancel_configuration: "missingEnvVars fullEnv cancel_requiredEnvVars = []"
  by (simp add: missingEnvVars_def cancel_requiredEnvVars_def fullEnv_def truthy_def)

theorem cancel_without_pending_recovery_witness:
  "missingEnvVars fullEnv cancel_requiredEnvVars = []
   \<and> cancel_main fullEnv (scenarioWorld (plain\<lparr>sc_executeAfter := 0\<rparr>)) =
       ([GetRecoveryRequest (SocialRecoveryModule After3Minutes) (Some ''node'') (Some ''0xSafe'')
           (Inr \<lparr>executeAfter = 0, newOwners = [''0xnew''], newThreshold = 1\<rparr>),
         ConsoleLog ''No pending recovery request found. Nothing to cancel.''],
        Resolved)"
proof -
  have r: "getRecoveryRequest (kit (scenarioWorld (plain\<lparr>sc_executeAfter := 0\<rparr>))) []
             (SocialRecoveryModule After3Minutes) (fullEnv ''NODE_URL'')
             (fullEnv ''SAFE_ACCOUNT_ADDRESS'')
           = Inr \<lparr>executeAfter = 0, newOwners = [''0xnew''], newThreshold = 1\<rparr>"
    by (simp add: scenario_defs)
  have e: "fullEnv ''NODE_URL'' = Some ''node''" "fullEnv ''SAFE_ACCOUNT_ADDRESS'' = Some ''0xSafe''"
    by (simp_all add: fullEnv_def)
  from cancel_without_pending_recovery[OF fullEnv_has_cancel_configuration r]
       fullEnv_has_cancel_configuration e
  show ?thesis by simp
qed

subsection \<open>The wait before finalization\<close>

lemma split_at_only:
  assumes "\<forall>x \<in> set xs. \<not> Q x" and "\<forall>x \<in> set zs. \<not> Q x"
      and "xs @ y # zs = before @ e # after" and "Q e"
  shows "before = xs"
  using assms
proof (induction xs arbitrary: before)
  case Nil
  then show ?case by (cases before) auto
next
  case (Cons x xs)
  then show ?case by (cases before) auto
qed

lemma finalize_step_shape:
  "\<exists>r rest. fst (awaitGracePeriodAndFinalize w g i s n t)
              = (t @ [SetTimeout (4 * 60 * 1000)]) @ FinalizeRecoveryRequest g i r # rest
            \<and> (\<forall>x \<in> set rest. \<not> isFinalize x)"
  by (auto simp: awaitGracePeriodAndFinalize_def await_def Let_def isFinalize_def
        split: sum.splits)

text \<open>
  Claim C3, as amended. The wait before finalization is a timer of four minutes
  (\<open>4 * 60 * 1000\<close> ms), longer than the three minutes of the \<open>After3Minutes\<close> policy; in
  every run of either recovery flow, what comes right before a call of
  \<open>finalizeRecoveryRequest\<close> is that timer (no read of chain state in between).
\<close>

theorem finalize_follows_four_minute_timer:
  assumes "s = RecoveryFlowPersonalGuardian \<or> s = RecoveryFlowEmailSms"
      and "fst (main s env w) = before @ e # after" and "isFinalize e"
  shows "(\<exists>b. before = b @ [SetTimeout (4 * 60 * 1000)])
       \<and> gracePeriodMs After3Minutes < 4 * 60 * 1000"
proof -
  from flows_reach_finalize[OF assms(1), of w env]
  obtain es where es: "\<forall>e \<in> set es. beforeFinalize e"
    and r: "atGracePeriod w ([] @ es) (main s env w)"
    unfolding leads_def by blast
  have nf: "\<forall>x \<in> set es. \<not> isFinalize x" using es by (simp add: beforeFinalize_def)
  from r have "before = es @ [SetTimeout (4 * 60 * 1000)]" unfolding atGracePeriod_def
  proof (elim disjE exE)
    assume "fst (main s env w) = [] @ es"
    with assms(2) have "e \<in> set es" by simp
    with nf assms(3) show ?thesis by blast
  next
    fix g i s' n
    assume m: "main s env w = awaitGracePeriodAndFinalize w g i s' n ([] @ es)"
    from finalize_step_shape[of w g i s' n es]
    obtain r rest where sh: "fst (awaitGracePeriodAndFinalize w g i s' n es)
                 = (es @ [SetTimeout (4 * 60 * 1000)]) @ FinalizeRecoveryRequest g i r # rest"
      and rest: "\<forall>x \<in> set rest. \<not> isFinalize x" by blast
    from nf have nf': "\<forall>x \<in> set (es @ [SetTimeout (4 * 60 * 1000)]). \<not> isFinalize x"
      by (simp add: isFinalize_def)
    from m sh assms(2)
    have "(es @ [SetTimeout (4 * 60 * 1000)]) @ FinalizeRecoveryRequest g i r # rest
            = before @ e # after" by simp
    from split_at_only[OF nf' rest this assms(3)] show ?thesis .
  qed
  then show ?thesis by simp
qed

lemmas guardianFlow_defs =
  guardianFlow_main_def guardianFlow_collectSignatures_def guardianFlow_execute_def
  guardianFlow_requiredEnvVars_def

lemma otpFlow_plain_run:
  "otpFlow_main fullEnv (scenarioWorld plain) =
     ([RequestCustodialGuardianSignatureChallenge
         (RecoveryByCustodialGuardian (Some ''service'') 11155111) (Some ''0xSafe'') [''0xnew''] 1
         (Inr \<lparr>requestId = ''q1'', auths = scenarioAuths\<rparr>),
       AskQuestion ''OTP sent to a@b.c - enter code: '' ''123456'',
       SubmitCustodialGuardianSignatureChallenge
         (RecoveryByCustodialGuardian (Some ''service'') 11155111) ''q1'' ''c1'' ''123456''
         (Inr \<lparr>vr_success = True, custodianGuardianAddress = Some ''0xcandide'',
               custodianGuardianSignature = Some ''0xsig''\<rparr>),
       ConsoleLog ''email verified'',
       AskQuestion ''OTP sent to +1 - enter code: '' ''123456'',
       SubmitCustodialGuardianSignatureChallenge
         (RecoveryByCustodialGuardian (Some ''service'') 11155111) ''q1'' ''c2'' ''123456''
         (Inr \<lparr>vr_success = True, custodianGuardianAddress = Some ''0xcandide'',
               custodianGuardianSignature = Some ''0xsig''\<rparr>),
       ConsoleLog ''sms verified'',
       CreateAndExecuteRecoveryRequest
         (RecoveryByCustodialGuardian (Some ''service'') 11155111) (Some ''0xSafe'') [''0xnew''] 1
         ''0xcandide'' ''0xsig'' (Inr scenarioRequest),
       SetTimeout 240000,
       FinalizeRecoveryRequest (RecoveryByGuardian (Some ''service'') 11155111 After3Minutes) ''r1''
         (Inr True),
       ConsoleLog ''Recovery finalized successfully'',
       SetTimeout 30000,
       GetOwners (Some ''0xSafe'') (Some ''node'') (Inr [''0xnew'']),
       RlClose],
      Resolved)"
  by (simp add: flow_defs scenario_defs)

theorem finalize_follows_four_minute_timer_witness:
  "isFinalize (FinalizeRecoveryRequest (RecoveryByGuardian (Some ''service'') 11155111 After3Minutes)
                 ''r1'' (Inr True))
   \<and> (\<exists>b. take 9 (fst (main RecoveryFlowEmailSms fullEnv (scenarioWorld plain)))
            = b @ [SetTimeout (4 * 60 * 1000)])
   \<and> gracePeriodMs After3Minutes < 4 * 60 * 1000"
proof -
  let ?T = "fst (main RecoveryFlowEmailSms fullEnv (scenarioWorld plain))"
  let ?e = "FinalizeRecoveryRequest (RecoveryByGuardian (Some ''service'') 11155111 After3Minutes)
              ''r1'' (Inr True)"
  have f: "isFinalize ?e" by (simp add: isFinalize_def)
  have sp: "?T = take 9 ?T @ ?e # drop 10 ?T" by (simp add: otpFlow_plain_run)
  from finalize_follows_four_minute_timer[OF _ sp f] f show ?thesis by blast
qed

text \<open>
  The claim as stated fails: in this complete run of the email/SMS flow the timers are of
  240000 and 30000 ms, and none is of the policy's 180000 ms.
\<close>

theorem grace_wait_is_not_the_policy_duration:
  "timersOf (fst (main RecoveryFlowEmailSms fullEnv (scenarioWorld plain))) = [240000, 30000]
   \<and> gracePeriodMs After3Minutes = 180000"
  by (simp add: otpFlow_plain_run timersOf_def)

subsection \<open>OTP verification\<close>

lemma atVerification_ended: "atVerification w env t (t, out)"
  by (simp add: atVerification_def)

lemma atVerification_there:
  "r = Inr sr \<Longrightarrow>
   leads P (atVerification w env) (t @ [RequestCustodialGuardianSignatureChallenge svc a b c r])
     (otpFlow_verifyIdentity w svc (requestId sr) (auths sr) None
        (t @ [RequestCustodialGuardianSignatureChallenge svc a b c r])
        (otpFlow_checkSignature w env svc g s n))"
  by (rule leads_here) (auto simp: atVerification_def)

lemmas beforeVerification_defs = beforeVerification_def isSubmission_def isCreateAndExecute_def

lemma otpFlow_reaches_verification:
  "leads beforeVerification (atVerification w env) [] (otpFlow_main env w)"
  unfolding otpFlow_main_def otpFlow_requestChallenge_def
    safeAccountAddressOrAsk_def newOwnerOrGenerate_def Let_def
  apply (intro leads_intros atVerification_there)
  apply (simp_all add: beforeVerification_defs atVerification_ended)
  done

lemma otpFlow_checkSignature_submits_nothing:
  "leads (\<lambda>e. \<not> isSubmission e) ended t (otpFlow_checkSignature w env svc g s n vr t)"
  unfolding otpFlow_checkSignature_def otpFlow_execute_def awaitGracePeriodAndFinalize_def Let_def
  apply (intro leads_intros)
  apply (simp_all add: isSubmission_def ended_def)
  done

lemma submittedChallenges_append [simp]:
  "submittedChallenges (xs @ ys) = submittedChallenges xs @ submittedChallenges ys"
  by (simp add: submittedChallenges_def)

lemma submittedChallenges_none:
  "\<forall>e \<in> set es. \<not> isSubmission e \<Longrightarrow> submittedChallenges es = []"
  by (induction es) (auto simp: submittedChallenges_def isSubmission_def split: event.splits)

lemma rejected_is_submission: "isRejectedSubmission e \<Longrightarrow> isSubmission e"
  by (auto simp: isRejectedSubmission_def isSubmission_def split: event.splits)

text \<open>
  What the loop does from a trace \<open>t\<close>: either every channel was verified, one submission
  each and in order, and the function goes on; or the run ends inside the loop, after
  submissions for a first part of the channels, and a rejected submission is then the
  last one, followed only by its report and the close of the readline interface.
\<close>

lemma verifyIdentity_outcome:
  "(\<exists>es vr'. otpFlow_verifyIdentity w svc rid as vr t k = k vr' (t @ es) \<and>
       (\<forall>e \<in> set es. \<not> isRejectedSubmission e \<and> \<not> isCreateAndExecute e) \<and>
       submittedChallenges es = map auth_challengeId as)
   \<or> (\<exists>es out. otpFlow_verifyIdentity w svc rid as vr t k = (t @ es, out) \<and>
       (\<forall>e \<in> set es. \<not> isCreateAndExecute e) \<and>
       prefix (submittedChallenges es) (map auth_challengeId as) \<and>
       (\<forall>e \<in> set es. isRejectedSubmission e \<longrightarrow>
          out = Resolved \<and> (\<exists>b l. es = b @ [e, ConsoleLog l, RlClose])))"
  (is "?goes as vr t \<or> ?stops as vr t")
proof (induction as arbitrary: vr t)
  case Nil
  have "?goes [] vr t"
    by (rule exI[of _ "[]"], rule exI[of _ vr]) (simp add: submittedChallenges_def)
  then show ?case ..
next
  case (Cons a as)
  let ?q = "''OTP sent to '' @ auth_target a @ '' - enter code: ''"
  let ?otp = "askAnswer (rt w) t ?q"
  let ?ask = "AskQuestion ?q ?otp"
  let ?r = "submitCustodialGuardianSignatureChallenge (custodialSvc w) (t @ [?ask]) svc rid
              (auth_challengeId a) ?otp"
  let ?sub = "SubmitCustodialGuardianSignatureChallenge svc rid (auth_challengeId a) ?otp ?r"
  let ?run = "otpFlow_verifyIdentity w svc rid (a # as) vr t k"
  have sc: "submittedChallenges [?ask, ?sub] = [auth_challengeId a]"
    by (simp add: submittedChallenges_def)
  show ?case
  proof (cases ?r)
    case (Inl e)
    define es where "es = [?ask, ?sub]"
    from Inl have run: "?run = (t @ es, Rejected e)"
      by (simp add: askQuestion_def await_def Let_def es_def)
    have e2: "\<forall>e \<in> set es. \<not> isCreateAndExecute e"
      by (simp add: es_def isCreateAndExecute_def)
    have e3: "prefix (submittedChallenges es) (map auth_challengeId (a # as))"
      by (simp add: es_def submittedChallenges_def)
    have e4: "\<forall>x \<in> set es. isRejectedSubmission x \<longrightarrow>
                Rejected e = Resolved \<and> (\<exists>b l. es = b @ [x, ConsoleLog l, RlClose])"
      using Inl by (simp add: es_def isRejectedSubmission_def)
    from run e2 e3 e4 have "?stops (a # as) vr t" by blast
    then show ?thesis ..
  next
    case (Inr v)
    show ?thesis
    proof (cases "vr_success v")
      case False
      let ?l = "auth_channel a @ '' verification failed''"
      define es where "es = [?ask, ?sub, ConsoleLog ?l, RlClose]"
      from Inr False have run: "?run = (t @ es, Resolved)"
        by (simp add: askQuestion_def await_def Let_def es_def)
      have e2: "\<forall>e \<in> set es. \<not> isCreateAndExecute e"
        by (simp add: es_def isCreateAndExecute_def)
      have e3: "prefix (submittedChallenges es) (map auth_challengeId (a # as))"
        by (simp add: es_def submittedChallenges_def)
      have sh: "es = [?ask] @ [?sub, ConsoleLog ?l, RlClose]" by (simp add: es_def)
      have only: "\<forall>x \<in> set es. isRejectedSubmission x \<longrightarrow> x = ?sub"
        by (simp add: es_def isRejectedSubmission_def)
      have e4: "\<forall>x \<in> set es. isRejectedSubmission x \<longrightarrow>
                  Resolved = Resolved \<and> (\<exists>b l. es = b @ [x, ConsoleLog l, RlClose])"
        using only sh by blast
      from run e2 e3 e4 have "?stops (a # as) vr t" by blast
      then show ?thesis ..
    next
      case True
      define pre where "pre = [?ask, ?sub, ConsoleLog (auth_channel a @ '' verified'')]"
      from Inr True have run: "?run = otpFlow_verifyIdentity w svc rid as (Some v) (t @ pre) k"
        by (simp add: askQuestion_def await_def Let_def pre_def)
      have pre_ok: "\<forall>e \<in> set pre. \<not> isRejectedSubmission e \<and> \<not> isCreateAndExecute e"
        using Inr True by (simp add: isRejectedSubmission_def isCreateAndExecute_def pre_def)
      have pre_sc: "submittedChallenges pre = [auth_challengeId a]"
        by (simp add: submittedChallenges_def pre_def)
      from Cons.IH[of "Some v" "t @ pre"] show ?thesis
      proof
        assume "?goes as (Some v) (t @ pre)"
        then obtain es vr' where
          a1: "otpFlow_verifyIdentity w svc rid as (Some v) (t @ pre) k = k vr' ((t @ pre) @ es)"
          and a2: "\<forall>e \<in> set es. \<not> isRejectedSubmission e \<and> \<not> isCreateAndExecute e"
          and a3: "submittedChallenges es = map auth_challengeId as" by blast
        have d1: "?run = k vr' (t @ (pre @ es))" using run a1 by simp
        have d2: "\<forall>e \<in> set (pre @ es). \<not> isRejectedSubmission e \<and> \<not> isCreateAndExecute e"
          using pre_ok a2 by auto
        have d3: "submittedChallenges (pre @ es) = map auth_challengeId (a # as)"
          using pre_sc a3 by simp
        from d1 d2 d3 have "?goes (a # as) vr t" by blast
        then show ?thesis ..
      next
        assume "?stops as (Some v) (t @ pre)"
        then obtain es out where
          b1: "otpFlow_verifyIdentity w svc rid as (Some v) (t @ pre) k = ((t @ pre) @ es, out)"
          and b2: "\<forall>e \<in> set es. \<not> isCreateAndExecute e"
          and b3: "prefix (submittedChallenges es) (map auth_challengeId as)"
          and b4: "\<forall>e \<in> set es. isRejectedSubmission e \<longrightarrow>
                     out = Resolved \<and> (\<exists>b l. es = b @ [e, ConsoleLog l, RlClose])" by blast
        have c1: "?run = (t @ (pre @ es), out)" using run b1 by simp
        have c2: "\<forall>e \<in> set (pre @ es). \<not> isCreateAndExecute e" using pre_ok b2 by auto
        have c3: "prefix (submittedChallenges (pre @ es)) (map auth_challengeId (a # as))"
          using pre_sc b3 by simp
        have c4: "\<forall>e \<in> set (pre @ es). isRejectedSubmission e \<longrightarrow>
                    out = Resolved \<and> (\<exists>b l. pre @ es = b @ [e, ConsoleLog l, RlClose])"
        proof (intro ballI impI)
          fix e assume that: "e \<in> set (pre @ es)" "isRejectedSubmission e"
          from that pre_ok have "e \<in> set es" by auto
          with b4 that(2) obtain b l where "out = Resolved" "es = b @ [e, ConsoleLog l, RlClose]"
            by blast
          then have "out = Resolved" "pre @ es = (pre @ b) @ [e, ConsoleLog l, RlClose]"
            by simp_all
          then show "out = Resolved \<and> (\<exists>b l. pre @ es = b @ [e, ConsoleLog l, RlClose])" by blast
        qed
        from c1 c2 c3 c4 have "?stops (a # as) vr t" by blast
        then show ?thesis ..
      qed
    qed
  qed
qed

text \<open>
  Claim C1. In the email/SMS recovery flow, when an OTP submission comes back with a
  result that is not a success, \<open>main\<close> returns right after reporting it: that submission
  is the last event but the report and the close of the readline interface, so
  \<open>createAndExecuteRecoveryRequest\<close> is never called; and the submissions of the run follow
  the registered channels in order, one each, so no channel is tried again.
\<close>

theorem rejected_otp_aborts_recovery:
  assumes "SubmitCustodialGuardianSignatureChallenge svc rid c otp (Inr r)
             \<in> set (fst (otpFlow_main env w))"
      and "\<not> vr_success r"
  shows "snd (otpFlow_main env w) = Resolved
       \<and> (\<forall>x \<in> set (fst (otpFlow_main env w)). \<not> isCreateAndExecute x)
       \<and> (\<exists>before l. fst (otpFlow_main env w) =
            before @ [SubmitCustodialGuardianSignatureChallenge svc rid c otp (Inr r),
                      ConsoleLog l, RlClose])
       \<and> (\<exists>svc' a b n sr.
            RequestCustodialGuardianSignatureChallenge svc' a b n (Inr sr)
              \<in> set (fst (otpFlow_main env w)) \<and>
            prefix (submittedChallenges (fst (otpFlow_main env w)))
              (map auth_challengeId (auths sr)))"
proof -
  let ?e = "SubmitCustodialGuardianSignatureChallenge svc rid c otp (Inr r)"
  let ?run = "otpFlow_main env w"
  have rej: "isRejectedSubmission ?e" using assms(2) by (simp add: isRejectedSubmission_def)
  from otpFlow_reaches_verification[of w env]
  obtain es where es: "\<forall>e \<in> set es. beforeVerification e"
    and at: "atVerification w env ([] @ es) ?run"
    unfolding leads_def by blast
  have es_sub: "\<forall>e \<in> set es. \<not> isSubmission e" and es_exe: "\<forall>e \<in> set es. \<not> isCreateAndExecute e"
    using es by (simp_all add: beforeVerification_def)
  have not_es: "?e \<notin> set es" using es_sub rejected_is_submission[OF rej] by blast
  from at show ?thesis unfolding atVerification_def
  proof (elim disjE exE conjE)
    assume "fst ?run = [] @ es"
    with assms(1) not_es show ?thesis by simp
  next
    fix svc' g s n sr t0 a' b' c'
    assume t: "[] @ es = t0 @ [RequestCustodialGuardianSignatureChallenge svc' a' b' c' (Inr sr)]"
      and run: "?run = otpFlow_verifyIdentity w svc' (requestId sr) (auths sr) None ([] @ es)
                         (otpFlow_checkSignature w env svc' g s n)"
    from t have req: "RequestCustodialGuardianSignatureChallenge svc' a' b' c' (Inr sr) \<in> set es"
      by simp
    from verifyIdentity_outcome[of w svc' "requestId sr" "auths sr" None es
        "otpFlow_checkSignature w env svc' g s n"]
    show ?thesis
    proof (elim disjE exE conjE)
      fix es1 vr'
      assume g1: "otpFlow_verifyIdentity w svc' (requestId sr) (auths sr) None es
                    (otpFlow_checkSignature w env svc' g s n)
                  = otpFlow_checkSignature w env svc' g s n vr' (es @ es1)"
        and g2: "\<forall>e \<in> set es1. \<not> isRejectedSubmission e \<and> \<not> isCreateAndExecute e"
      from otpFlow_checkSignature_submits_nothing[of "es @ es1" w env svc' g s n vr']
      obtain es2 where e2: "\<forall>e \<in> set es2. \<not> isSubmission e"
        and f: "fst (otpFlow_checkSignature w env svc' g s n vr' (es @ es1)) = (es @ es1) @ es2"
        unfolding leads_def ended_def by blast
      from run g1 f have "fst ?run = es @ es1 @ es2" by simp
      with assms(1) not_es have "?e \<in> set es1 \<or> ?e \<in> set es2" by auto
      with g2 e2 rej rejected_is_submission[OF rej] show ?thesis by blast
    next
      fix es1 out
      assume s1: "otpFlow_verifyIdentity w svc' (requestId sr) (auths sr) None es
                    (otpFlow_checkSignature w env svc' g s n) = (es @ es1, out)"
        and s2: "\<forall>e \<in> set es1. \<not> isCreateAndExecute e"
        and s3: "prefix (submittedChallenges es1) (map auth_challengeId (auths sr))"
        and s4: "\<forall>e \<in> set es1. isRejectedSubmission e \<longrightarrow>
                   out = Resolved \<and> (\<exists>b l. es1 = b @ [e, ConsoleLog l, RlClose])"
      from run s1 have r: "?run = (es @ es1, out)" by simp
      with assms(1) not_es have "?e \<in> set es1" by simp
      with s4 rej obtain b l where o: "out = Resolved" and sh: "es1 = b @ [?e, ConsoleLog l, RlClose]"
        by blast
      have p1: "snd ?run = Resolved" using r o by simp
      have p2: "\<forall>x \<in> set (fst ?run). \<not> isCreateAndExecute x" using r es_exe s2 by auto
      have p3: "fst ?run = (es @ b) @ [?e, ConsoleLog l, RlClose]" using r sh by simp
      have p4: "prefix (submittedChallenges (fst ?run)) (map auth_challengeId (auths sr))"
        using r s3 submittedChallenges_none[OF es_sub] by simp
      have p5: "RequestCustodialGuardianSignatureChallenge svc' a' b' c' (Inr sr) \<in> set (fst ?run)"
        using r req by simp
      from p1 p2 p3 p4 p5 show ?thesis by blast
    qed
  qed
qed

lemma otpFlow_rejected_second_channel_run:
  "otpFlow_main fullEnv (scenarioWorld (plain\<lparr>sc_rejectedChallenge := ''c2''\<rparr>)) =
     ([RequestCustodialGuardianSignatureChallenge
         (RecoveryByCustodialGuardian (Some ''service'') 11155111) (Some ''0xSafe'') [''0xnew''] 1
         (Inr \<lparr>requestId = ''q1'', auths = scenarioAuths\<rparr>),
       AskQuestion ''OTP sent to a@b.c - enter code: '' ''123456'',
       SubmitCustodialGuardianSignatureChallenge
         (RecoveryByCustodialGuardian (Some ''service'') 11155111) ''q1'' ''c1'' ''123456''
         (Inr \<lparr>vr_success = True, custodianGuardianAddress = Some ''0xcandide'',
               custodianGuardianSignature = Some ''0xsig''\<rparr>),
       ConsoleLog ''email verified'',
       AskQuestion ''OTP sent to +1 - enter code: '' ''123456'',
       SubmitCustodialGuardianSignatureChallenge
         (RecoveryByCustodialGuardian (Some ''service'') 11155111) ''q1'' ''c2'' ''123456''
         (Inr \<lparr>vr_success = False, custodianGuardianAddress = Some ''0xcandide'',
               custodianGuardianSignature = Some ''0xsig''\<rparr>),
       ConsoleLog ''sms verification failed'',
       RlClose],
      Resolved)"
  by (simp add: flow_defs scenario_defs)

theorem rejected_otp_aborts_recovery_witness:
  "SubmitCustodialGuardianSignatureChallenge
       (RecoveryByCustodialGuardian (Some ''service'') 11155111) ''q1'' ''c2'' ''123456''
       (Inr \<lparr>vr_success = False, custodianGuardianAddress = Some ''0xcandide'',
             custodianGuardianSignature = Some ''0xsig''\<rparr>)
     \<in> set (fst (otpFlow_main fullEnv (scenarioWorld (plain\<lparr>sc_rejectedChallenge := ''c2''\<rparr>))))
   \<and> \<not> vr_success \<lparr>vr_success = False, custodianGuardianAddress = Some ''0xcandide'',
                     custodianGuardianSignature = Some ''0xsig''\<rparr>
   \<and> snd (otpFlow_main fullEnv (scenarioWorld (plain\<lparr>sc_rejectedChallenge := ''c2''\<rparr>))) = Resolved
   \<and> filter isCreateAndExecute
        (fst (otpFlow_main fullEnv (scenarioWorld (plain\<lparr>sc_rejectedChallenge := ''c2''\<rparr>)))) = []"
proof -
  let ?W = "scenarioWorld (plain\<lparr>sc_rejectedChallenge := ''c2''\<rparr>)"
  let ?r = "\<lparr>vr_success = False, custodianGuardianAddress = Some ''0xcandide'',
             custodianGuardianSignature = Some ''0xsig''\<rparr>"
  have h: "SubmitCustodialGuardianSignatureChallenge
             (RecoveryByCustodialGuardian (Some ''service'') 11155111) ''q1'' ''c2'' ''123456''
             (Inr ?r) \<in> set (fst (otpFlow_main fullEnv ?W))"
    by (simp add: otpFlow_rejected_second_channel_run)
  have n: "\<not> vr_success ?r" by simp
  from rejected_otp_aborts_recovery[OF h n]
  have "snd (otpFlow_main fullEnv ?W) = Resolved"
    and "\<forall>x \<in> set (fst (otpFlow_main fullEnv ?W)). \<not> isCreateAndExecute x"
    by blast+
  then have "snd (otpFlow_main fullEnv ?W) = Resolved"
    and "filter isCreateAndExecute (fst (otpFlow_main fullEnv ?W)) = []"
    by (simp_all add: filter_empty_conv)
  with h n show ?thesis by blast
qed

subsection \<open>Rules for \<open>leads\<close> from the empty trace\<close>

lemma from_start: "leads P R t run \<Longrightarrow> \<forall>e \<in> set t. P e \<Longrightarrow> leads P R [] run"
  by (rule leads_steps[of t P R "[]"]) simp_all

lemma start_ended:
  assumes "\<forall>e \<in> set t. P e" and "R t (t, out)"
  shows "leads P R [] (t, out)"
  unfolding leads_def using assms by (intro exI[of _ t]) simp

lemma start_await:
  assumes "\<forall>e \<in> set t. P e" and "P (ev r)"
      and "\<And>e. r = Inl e \<Longrightarrow> R (t @ [ev r]) (t @ [ev r], Rejected e)"
      and "\<And>v. r = Inr v \<Longrightarrow> leads P R [] (k v (t @ [ev r]))"
  shows "leads P R [] (await r ev t k)"
proof (cases r)
  case (Inl e)
  then have "await r ev t k = (t @ [ev r], Rejected e)" by (simp add: await_def)
  moreover have "\<forall>e \<in> set (t @ [ev r]). P e" using assms(1,2) by simp
  ultimately show ?thesis using assms(3)[OF Inl] by (simp add: start_ended)
next
  case (Inr v)
  then have "await r ev t k = k v (t @ [ev r])" by (simp add: await_def)
  with assms(4)[OF Inr] show ?thesis by simp
qed

lemma start_attempt:
  assumes "\<forall>e \<in> set t. P e"
      and "\<And>e. r = Inl e \<Longrightarrow> R t (t, Rejected e)"
      and "\<And>v. r = Inr v \<Longrightarrow> leads P R [] (k v)"
  shows "leads P R [] (attempt r t k)"
proof (cases r)
  case (Inl e)
  then have "attempt r t k = (t, Rejected e)" by (simp add: attempt_def)
  with assms(1) assms(2)[OF Inl] show ?thesis by (simp add: start_ended)
next
  case (Inr v)
  then have "attempt r t k = k v" by (simp add: attempt_def)
  with assms(3)[OF Inr] show ?thesis by simp
qed

lemma start_ask:
  assumes "\<And>a. leads P R [] (k a (t @ [AskQuestion q a]))"
  shows "leads P R [] (askQuestion w q t k)"
  using assms by (simp add: askQuestion_def Let_def)

lemma start_loop:
  assumes "\<forall>e \<in> set t. P e"
      and "\<And>q a. P (AskQuestion q a)"
      and "\<And>c otp r. P (SubmitCustodialGuardianSignatureChallenge svc rid c otp r)"
      and "\<And>l. P (ConsoleLog l)" and "P RlClose"
      and "\<And>t out. R t (t, out)"
      and "\<And>vr t'. leads P R t' (k vr t')"
  shows "leads P R [] (otpFlow_verifyIdentity w svc rid as vr t k)"
  by (rule from_start[OF verifyIdentity_leads]) (use assms in auto)

lemmas start_intros = start_await start_attempt start_ask start_ended leads_if leads_case_option

subsection \<open>The grace-period selector\<close>

lemmas addresses_defs = addressesAfter3Minutes_def selectorsOf_def ended_def

lemma cancel_addresses:
  "leads (addressesAfter3Minutes w) ended [] (cancel_main env w)"
  unfolding cancel_main_def cancel_initializeSafeAccount_def cancel_confirmOwner_def
    cancel_cancelRecovery_def cancel_verifyCancellation_def initializeSafeAccount_def
    waitForUserOperation_def Let_def
  apply (intro start_intros)
  apply (simp_all add: addresses_defs)
  done

lemma addGuardian_addresses:
  "leads (addressesAfter3Minutes w) ended [] (addGuardian_main env w)"
  unfolding addGuardian_main_def addGuardian_buildTransactions_def addGuardian_submit_def
    addGuardian_verifySetup_def seedPhraseOrGenerate_def privateKeyOrGenerate_def
    initializeSafeAccount_def waitForUserOperation_def Let_def
  apply (intro start_intros)
  apply (simp_all add: addresses_defs)
  done

lemma finalize_addresses:
  "leads (addressesAfter3Minutes w) ended t
     (awaitGracePeriodAndFinalize w (RecoveryByGuardian u c After3Minutes) i s n t)"
  unfolding awaitGracePeriodAndFinalize_def Let_def
  apply (intro leads_intros)
  apply (simp_all add: addresses_defs)
  done

lemma guardianFlow_addresses:
  "leads (addressesAfter3Minutes w) ended [] (guardianFlow_main env w)"
  unfolding guardianFlow_main_def guardianFlow_collectSignatures_def guardianFlow_execute_def
    safeAccountAddressOrAsk_def newOwnerOrGenerate_def Let_def
  apply (intro start_intros finalize_addresses[THEN from_start])
  apply (simp_all add: addresses_defs split: option.splits)
  done

lemma otpFlow_checkSignature_addresses:
  "leads (addressesAfter3Minutes w) ended t
     (otpFlow_checkSignature w env svc (RecoveryByGuardian u c After3Minutes) s n vr t)"
  unfolding otpFlow_checkSignature_def otpFlow_execute_def Let_def
  apply (intro leads_intros finalize_addresses)
  apply (simp_all add: addresses_defs)
  done

lemma otpFlow_addresses:
  "leads (addressesAfter3Minutes w) ended [] (otpFlow_main env w)"
  unfolding otpFlow_main_def otpFlow_requestChallenge_def
    safeAccountAddressOrAsk_def newOwnerOrGenerate_def Let_def
  apply (intro start_intros start_loop otpFlow_checkSignature_addresses)
  apply (simp_all add: addresses_defs)
  done

lemma enableRecovery_verifySetup_addresses:
  "\<forall>e \<in> set t. addressesAfter3Minutes w e \<Longrightarrow>
   leads (addressesAfter3Minutes w) ended [] (enableRecovery_verifySetup w env gs a ow t)"
  unfolding enableRecovery_verifySetup_def signSafeMessage_def Let_def
  apply (intro start_intros )
  apply (simp_all add: addresses_defs)
  done

lemma enableRecovery_addGuardian_addresses:
  "\<forall>e \<in> set t. addressesAfter3Minutes w e \<Longrightarrow>
   leads (addressesAfter3Minutes w) ended [] (enableRecovery_addGuardian w env (SocialRecoveryModule After3Minutes) gs a ow g t)"
  unfolding enableRecovery_addGuardian_def waitForUserOperation_def Let_def
  apply (intro start_intros enableRecovery_verifySetup_addresses)
  apply (simp_all add: addresses_defs)
  done

lemma enableRecovery_registerSms_addresses:
  "\<forall>e \<in> set t. addressesAfter3Minutes w e \<Longrightarrow>
   leads (addressesAfter3Minutes w) ended [] (enableRecovery_registerSms w env (SocialRecoveryModule After3Minutes) gs a ow em sm ph g t)"
  unfolding enableRecovery_registerSms_def signSafeMessage_def Let_def
  apply (intro start_intros enableRecovery_addGuardian_addresses)
  apply (simp_all add: addresses_defs)
  done

lemma enableRecovery_registerEmail_addresses:
  "\<forall>e \<in> set t. addressesAfter3Minutes w e \<Longrightarrow>
   leads (addressesAfter3Minutes w) ended [] (enableRecovery_registerEmail w env (SocialRecoveryModule After3Minutes) gs a ow em sm ue ph t)"
  unfolding enableRecovery_registerEmail_def signSafeMessage_def Let_def
  apply (intro start_intros enableRecovery_registerSms_addresses)
  apply (simp_all add: addresses_defs)
  done

lemma enableRecovery_register_addresses:
  "\<forall>e \<in> set t. addressesAfter3Minutes w e \<Longrightarrow>
   leads (addressesAfter3Minutes w) ended [] (enableRecovery_register w env (SocialRecoveryModule After3Minutes) a sp em sm ue ph t)"
  unfolding enableRecovery_register_def Let_def
  apply (intro start_intros enableRecovery_registerEmail_addresses)
  apply (simp_all add: addresses_defs)
  done

lemma enableRecovery_chooseChannels_addresses:
  "\<forall>e \<in> set t. addressesAfter3Minutes w e \<Longrightarrow>
   leads (addressesAfter3Minutes w) ended [] (enableRecovery_chooseChannels w env (SocialRecoveryModule After3Minutes) a sp t)"
  unfolding enableRecovery_chooseChannels_def valueOrAsk_def Let_def
  apply (intro start_intros enableRecovery_register_addresses)
  apply (simp_all add: addresses_defs)
  done

lemma enableRecovery_addresses:
  "leads (addressesAfter3Minutes w) ended [] (enableRecovery_main env w)"
  unfolding enableRecovery_main_def enableRecovery_deploySafe_def seedPhraseOrGenerate_def
    initializeSafeAccount_def waitForUserOperation_def Let_def
  apply (intro start_intros enableRecovery_chooseChannels_addresses)
  apply (simp_all add: addresses_defs)
  done

lemma alerts_verifySubscriptions_addresses:
  "\<forall>e \<in> set t. addressesAfter3Minutes w e \<Longrightarrow>
   leads (addressesAfter3Minutes w) ended [] (alerts_verifySubscriptions w al sa ow t)"
  unfolding alerts_verifySubscriptions_def Let_def
  apply (intro start_intros )
  apply (simp_all add: addresses_defs)
  done

lemma alerts_subscribeSms_addresses:
  "\<forall>e \<in> set t. addressesAfter3Minutes w e \<Longrightarrow>
   leads (addressesAfter3Minutes w) ended [] (alerts_subscribeSms w al sa ow sm ph t)"
  unfolding alerts_subscribeSms_def alerts_activate_def Let_def
  apply (intro start_intros alerts_verifySubscriptions_addresses)
  apply (simp_all add: addresses_defs split: sum.splits)
  done

lemma alerts_subscribeEmail_addresses:
  "\<forall>e \<in> set t. addressesAfter3Minutes w e \<Longrightarrow>
   leads (addressesAfter3Minutes w) ended [] (alerts_subscribeEmail w al sa ow em sm ue ph t)"
  unfolding alerts_subscribeEmail_def alerts_activate_def Let_def
  apply (intro start_intros alerts_subscribeSms_addresses)
  apply (simp_all add: addresses_defs split: sum.splits)
  done

lemma alerts_chooseChannels_addresses:
  "\<forall>e \<in> set t. addressesAfter3Minutes w e \<Longrightarrow>
   leads (addressesAfter3Minutes w) ended [] (alerts_chooseChannels w env al sa ow t)"
  unfolding alerts_chooseChannels_def valueOrAsk_def Let_def
  apply (intro start_intros alerts_subscribeEmail_addresses)
  apply (simp_all add: addresses_defs)
  done

lemma alerts_addresses:
  "leads (addressesAfter3Minutes w) ended [] (alerts_main env w)"
  unfolding alerts_main_def alerts_checkExisting_def safeAccountAddressOrAsk_def Let_def
  apply (intro start_intros alerts_chooseChannels_addresses)
  apply (simp_all add: addresses_defs)
  done

lemma every_script_addresses:
  "leads (addressesAfter3Minutes w) ended [] (main s env w)"
  by (cases s)
    (simp_all add: addGuardian_addresses guardianFlow_addresses enableRecovery_addresses
       otpFlow_addresses alerts_addresses cancel_addresses)

text \<open>
  Claim C2. Whatever script runs, in whatever environment and world, every call it makes
  on a \<open>SocialRecoveryModule\<close> or a \<open>RecoveryByGuardian\<close>, and every meta-transaction it
  submits, comes from an object constructed with \<open>After3Minutes\<close>, and a module check
  asks about the address of that module: setup, recovery flows and cancel use one
  selector, so any two of them address the same module.
\<close>

theorem one_selector_in_every_script:
  assumes "e \<in> set (fst (main s env w))"
  shows "addressesAfter3Minutes w e"
proof -
  from every_script_addresses[of w s env]
  obtain es where "\<forall>e \<in> set es. addressesAfter3Minutes w e" and "fst (main s env w) = [] @ es"
    unfolding leads_def ended_def by blast
  with assms show ?thesis by simp
qed

lemmas cancel_defs =
  cancel_main_def cancel_initializeSafeAccount_def cancel_confirmOwner_def
  cancel_cancelRecovery_def cancel_verifyCancellation_def initializeSafeAccount_def
  waitForUserOperation_def sponsoredConfig_def cancel_requiredEnvVars_def
  await_def attempt_def askQuestion_def missingEnvVars_def truthy_def toString_def
  Let_def

lemma lower_case_of_the_safe: "toLowerCase ''0xsafe'' = toLowerCase ''0xSafe''"
  by code_simp

lemma cancel_plain_run:
  "cancel_main fullEnv (scenarioWorld plain) =
     ([GetRecoveryRequest (SocialRecoveryModule After3Minutes) (Some ''node'') (Some ''0xSafe'')
         (Inr \<lparr>executeAfter = 1700000000, newOwners = [''0xnew''], newThreshold = 1\<rparr>),
       GetAccount (Some ''seed'')
         \<lparr>cfg_chainId = Some ''11155111'', cfg_provider = Some ''node'',
           cfg_bundlerUrl = Some ''bundler'', cfg_entryPointAddress = Some ''0xentry'',
           cfg_safeModulesVersion = ''0.3.0'', cfg_isSponsored = True,
           cfg_paymasterUrl = Some ''paymaster'', cfg_sponsorshipPolicyId = None\<rparr>
         0 (Inr ()),
       GetAddress (Inr ''0xsafe''),
       SendTransaction [CancelRecoveryMetaTransaction (SocialRecoveryModule After3Minutes)]
         (Inr ''0xhash''),
       WaitForUserOperation ''0xhash'' (Some ''bundler'') (Some ''0xentry'')
         (Inr \<lparr>receipt_success = True, receipt_transactionHash = ''0xtx''\<rparr>),
       GetRecoveryRequest (SocialRecoveryModule After3Minutes) (Some ''node'') (Some ''0xSafe'')
         (Inr \<lparr>executeAfter = 0, newOwners = [''0xnew''], newThreshold = 1\<rparr>),
       ConsoleLog ''Recovery successfully cancelled'',
       DisposeAccount, DisposeWallet],
      Resolved)"
  by (simp add: cancel_defs scenario_defs submitsTransaction_def lower_case_of_the_safe)

theorem one_selector_in_every_script_witness:
  "SendTransaction [CancelRecoveryMetaTransaction (SocialRecoveryModule After3Minutes)]
       (Inr ''0xhash'')
     \<in> set (fst (main CancelRecovery fullEnv (scenarioWorld plain)))
   \<and> addressesAfter3Minutes (scenarioWorld plain)
       (SendTransaction [CancelRecoveryMetaTransaction (SocialRecoveryModule After3Minutes)]
          (Inr ''0xhash''))"
proof -
  have h: "SendTransaction [CancelRecoveryMetaTransaction (SocialRecoveryModule After3Minutes)]
             (Inr ''0xhash'')
           \<in> set (fst (main CancelRecovery fullEnv (scenarioWorld plain)))"
    by (simp add: cancel_plain_run)
  from one_selector_in_every_script[OF h] h show ?thesis by blast
qed

subsection \<open>The owner check of the cancel script\<close>

lemma atOwnerCheck_there:
  "r = Inr a \<Longrightarrow> \<forall>e \<in> set t. \<not> isDerivedAddress e \<Longrightarrow> \<forall>e \<in> set (t @ [GetAddress r]). P e \<Longrightarrow>
   leads P (atOwnerCheck w env) []
     (cancel_confirmOwner w env (SocialRecoveryModule After3Minutes) a (t @ [GetAddress r]))"
  unfolding leads_def atOwnerCheck_def
  by (intro exI[of _ "t @ [GetAddress r]"]) auto

lemma cancel_reaches_owner_check:
  "leads (\<lambda>e. \<not> submitsTransaction e) (atOwnerCheck w env) [] (cancel_main env w)"
  unfolding cancel_main_def cancel_initializeSafeAccount_def initializeSafeAccount_def Let_def
  apply (intro start_intros atOwnerCheck_there)
  apply (simp_all add: submitsTransaction_def atOwnerCheck_def isDerivedAddress_def)
  done

lemma cancel_cancelRecovery_cancels_only:
  "leads cancelsOnly ended t
     (cancel_cancelRecovery w env (SocialRecoveryModule After3Minutes) t)"
  unfolding cancel_cancelRecovery_def cancel_verifyCancellation_def waitForUserOperation_def Let_def
  apply (intro leads_intros)
  apply (simp_all add: cancelsOnly_def ended_def)
  done

text \<open>
  Claim C4, as amended. The cancel script does compare identities on the client: a
  cancellation is submitted only after \<open>getAddress\<close> gave an address that equals
  \<open>SAFE_ACCOUNT_ADDRESS\<close> up to letter case, and what is submitted is then the
  cancellation alone; when the two addresses differ, \<open>main\<close> throws right after
  \<open>getAddress\<close>, with a message that holds both, and nothing is submitted.
\<close>

theorem cancel_compares_signer_with_safe:
  "(SendTransaction txs r \<in> set (fst (cancel_main env w)) \<longrightarrow>
      txs = [CancelRecoveryMetaTransaction (SocialRecoveryModule After3Minutes)] \<and>
      (\<exists>a s. GetAddress (Inr a) \<in> set (fst (cancel_main env w)) \<and>
             env ''SAFE_ACCOUNT_ADDRESS'' = Some s \<and> toLowerCase a = toLowerCase s))
   \<and> (GetAddress (Inr a) \<in> set (fst (cancel_main env w)) \<and>
        env ''SAFE_ACCOUNT_ADDRESS'' = Some s \<and> toLowerCase a \<noteq> toLowerCase s \<longrightarrow>
        snd (cancel_main env w) =
          Rejected (Error (''Seed phrase derives '' @ a @ '', not '' @ s @ ''. ''
                           @ ''Only the original Safe owner can cancel.'')) \<and>
        (\<exists>before. fst (cancel_main env w) = before @ [GetAddress (Inr a)]) \<and>
        (\<forall>e \<in> set (fst (cancel_main env w)). \<not> submitsTransaction e))"
  (is "(?sent \<longrightarrow> ?matched) \<and> (?differs \<longrightarrow> ?thrown)")
proof -
  let ?run = "cancel_main env w"
  let ?srm = "SocialRecoveryModule After3Minutes"
  from cancel_reaches_owner_check[of w env]
  obtain es where es: "\<forall>e \<in> set es. \<not> submitsTransaction e"
    and at: "atOwnerCheck w env ([] @ es) ?run"
    unfolding leads_def by blast
  have no_send: "SendTransaction txs r \<notin> set es"
    using es by (auto simp: submitsTransaction_def)
  from at show ?thesis unfolding atOwnerCheck_def
  proof (elim disjE exE conjE)
    assume f: "fst ?run = [] @ es" and d: "\<forall>e \<in> set ([] @ es). \<not> isDerivedAddress e"
    have "GetAddress (Inr a) \<notin> set es" using d by (auto simp: isDerivedAddress_def)
    with f no_send have "\<not> ?sent" "\<not> ?differs" by simp_all
    then show ?thesis by blast
  next
    fix a' t0
    assume t: "[] @ es = t0 @ [GetAddress (Inr a')]"
      and t0: "\<forall>e \<in> set t0. \<not> isDerivedAddress e"
      and run: "?run = cancel_confirmOwner w env ?srm a' ([] @ es)"
    have shape: "es = t0 @ [GetAddress (Inr a')]" using t by simp
    have only: "a'' = a'" if "GetAddress (Inr a'') \<in> set es" for a''
      using that shape t0 by (auto simp: isDerivedAddress_def)
    have mem: "GetAddress (Inr a') \<in> set es" using shape by simp
    show ?thesis
    proof (cases "env ''SAFE_ACCOUNT_ADDRESS''")
      case None
      with run have "fst ?run = es" by (simp add: cancel_confirmOwner_def)
      with no_send None have "\<not> ?sent" "\<not> ?differs" by simp_all
      then show ?thesis by blast
    next
      case (Some s')
      show ?thesis
      proof (cases "toLowerCase a' = toLowerCase s'")
        case False
        with run Some have r: "?run =
            (es, Rejected (Error (''Seed phrase derives '' @ a' @ '', not '' @ s' @ ''. ''
                                  @ ''Only the original Safe owner can cancel.'')))"
          by (simp add: cancel_confirmOwner_def)
        then have f: "fst ?run = es" by simp
        from f no_send have n: "\<not> ?sent" by simp
        have "?thrown" if "?differs"
        proof -
          from that f have "GetAddress (Inr a) \<in> set es" by simp
          then have "a = a'" by (rule only)
          moreover from that Some have "s = s'" by simp
          ultimately show ?thesis using r shape es by simp
        qed
        with n show ?thesis by blast
      next
        case True
        with run Some have r: "?run = cancel_cancelRecovery w env ?srm es"
          by (simp add: cancel_confirmOwner_def)
        from cancel_cancelRecovery_cancels_only[of es w env]
        obtain es2 where e2: "\<forall>e \<in> set es2. cancelsOnly e" and f: "fst ?run = es @ es2"
          unfolding leads_def ended_def using r by auto
        have none2: "GetAddress (Inr a) \<notin> set es2" using e2 by (auto simp: cancelsOnly_def)
        have m: "?matched" if "?sent"
        proof -
          from that f no_send have "SendTransaction txs r \<in> set es2" by simp
          with e2 have "txs = [CancelRecoveryMetaTransaction ?srm]"
            by (auto simp: cancelsOnly_def)
          moreover from mem f have "GetAddress (Inr a') \<in> set (fst ?run)" by simp
          ultimately show ?thesis using Some True by blast
        qed
        have "\<not> ?differs"
        proof
          assume d: "?differs"
          with f none2 have "GetAddress (Inr a) \<in> set es" by simp
          then have "a = a'" by (rule only)
          moreover from d Some have "s = s'" by simp
          ultimately show False using d True by simp
        qed
        with m show ?thesis by blast
      qed
    qed
  qed
qed

lemma lower_case_of_another: "toLowerCase ''0xother'' \<noteq> toLowerCase ''0xSafe''"
  by code_simp

lemma cancel_refuses_another_signer_run:
  "fst (cancel_main fullEnv (scenarioWorld (plain\<lparr>sc_derivedAddress := ''0xother''\<rparr>))) =
     [GetRecoveryRequest (SocialRecoveryModule After3Minutes) (Some ''node'') (Some ''0xSafe'')
         (Inr \<lparr>executeAfter = 1700000000, newOwners = [''0xnew''], newThreshold = 1\<rparr>),
       GetAccount (Some ''seed'')
         \<lparr>cfg_chainId = Some ''11155111'', cfg_provider = Some ''node'',
           cfg_bundlerUrl = Some ''bundler'', cfg_entryPointAddress = Some ''0xentry'',
           cfg_safeModulesVersion = ''0.3.0'', cfg_isSponsored = True,
           cfg_paymasterUrl = Some ''paymaster'', cfg_sponsorshipPolicyId = None\<rparr>
         0 (Inr ()),
       GetAddress (Inr ''0xother'')]"
  by (simp add: cancel_defs scenario_defs submitsTransaction_def lower_case_of_another)

text \<open>
  The claim as stated fails: a recovery is pending, the seed phrase derives another
  address than the Safe's, and the script throws after the comparison; no cancellation is
  built or submitted.
\<close>

theorem cancel_refuses_another_signer:
  "cancel_main fullEnv (scenarioWorld (plain\<lparr>sc_derivedAddress := ''0xother''\<rparr>)) =
     ([GetRecoveryRequest (SocialRecoveryModule After3Minutes) (Some ''node'') (Some ''0xSafe'')
         (Inr \<lparr>executeAfter = 1700000000, newOwners = [''0xnew''], newThreshold = 1\<rparr>),
       GetAccount (Some ''seed'')
         \<lparr>cfg_chainId = Some ''11155111'', cfg_provider = Some ''node'',
           cfg_bundlerUrl = Some ''bundler'', cfg_entryPointAddress = Some ''0xentry'',
           cfg_safeModulesVersion = ''0.3.0'', cfg_isSponsored = True,
           cfg_paymasterUrl = Some ''paymaster'', cfg_sponsorshipPolicyId = None\<rparr>
         0 (Inr ()),
       GetAddress (Inr ''0xother'')],
      Rejected (Error
        ''Seed phrase derives 0xother, not 0xSafe. Only the original Safe owner can cancel.''))"
  by (simp add: cancel_defs scenario_defs submitsTransaction_def lower_case_of_another)

theorem cancel_compares_signer_with_safe_witness:
  "SendTransaction [CancelRecoveryMetaTransaction (SocialRecoveryModule After3Minutes)]
       (Inr ''0xhash'')
     \<in> set (fst (cancel_main fullEnv (scenarioWorld plain)))
   \<and> (\<exists>a s. GetAddress (Inr a) \<in> set (fst (cancel_main fullEnv (scenarioWorld plain))) \<and>
            fullEnv ''SAFE_ACCOUNT_ADDRESS'' = Some s \<and> toLowerCase a = toLowerCase s)
   \<and> GetAddress (Inr ''0xother'')
     \<in> set (fst (cancel_main fullEnv (scenarioWorld (plain\<lparr>sc_derivedAddress := ''0xother''\<rparr>))))
   \<and> fullEnv ''SAFE_ACCOUNT_ADDRESS'' = Some ''0xSafe''
   \<and> toLowerCase ''0xother'' \<noteq> toLowerCase ''0xSafe''
   \<and> filter submitsTransaction
         (fst (cancel_main fullEnv (scenarioWorld (plain\<lparr>sc_derivedAddress := ''0xother''\<rparr>)))) = []"
proof -
  let ?tx = "[CancelRecoveryMetaTransaction (SocialRecoveryModule After3Minutes)]"
  let ?W = "scenarioWorld (plain\<lparr>sc_derivedAddress := ''0xother''\<rparr>)"
  have h1: "SendTransaction ?tx (Inr ''0xhash'') \<in> set (fst (cancel_main fullEnv (scenarioWorld plain)))"
    by (simp add: cancel_plain_run)
  have h2: "GetAddress (Inr ''0xother'') \<in> set (fst (cancel_main fullEnv ?W))"
    by (simp add: cancel_refuses_another_signer_run)
  have h3: "fullEnv ''SAFE_ACCOUNT_ADDRESS'' = Some ''0xSafe''" by (simp add: fullEnv_def)
  note h4 = lower_case_of_another
  from cancel_compares_signer_with_safe[of ?tx "Inr ''0xhash''" fullEnv "scenarioWorld plain"] h1
  have c1: "\<exists>a s. GetAddress (Inr a) \<in> set (fst (cancel_main fullEnv (scenarioWorld plain))) \<and>
              fullEnv ''SAFE_ACCOUNT_ADDRESS'' = Some s \<and> toLowerCase a = toLowerCase s"
    by blast
  from cancel_compares_signer_with_safe[of _ _ fullEnv ?W "''0xother''" "''0xSafe''"] h2 h3 h4
  have c2: "\<forall>e \<in> set (fst (cancel_main fullEnv ?W)). \<not> submitsTransaction e"
    by blast
  from c2 have c3: "filter submitsTransaction (fst (cancel_main fullEnv ?W)) = []"
    by (simp add: filter_empty_conv)
  from h1 c1 h2 h3 h4 c3 show ?thesis by blast
qed

subsection \<open>An inclusion receipt that reports a failure\<close>




























end
